theory Spec2Isabelle
  imports Complex_Main "HOL-Library.Word"
begin

section \<open>jpgicc: applying ICC profiles to JPEG files\<close>

text \<open>
  A shallow embedding of \<^verbatim>\<open>utils/jpgicc/jpgicc.c\<close>. The global variables of the program
  are the fields of records that the functions take and return; \<^verbatim>\<open>FatalError\<close> and
  \<^verbatim>\<open>exit\<close> end the program, so a function that may call them returns a sum whose left
  summand says how the program ended.
\<close>

subsection \<open>What jpgicc sees of libjpeg\<close>

type_synonym JOCTET = "8 word"

text \<open>\<^verbatim>\<open>JPEG_APP0\<close> of \<^verbatim>\<open>jpeglib.h\<close>: the code of the marker FFE0.\<close>

definition JPEG_APP0 :: int where
  "JPEG_APP0 = 0xE0"

text \<open>
  A saved marker: its code and its payload. The field \<^verbatim>\<open>data_length\<close> of libjpeg is the
  number of bytes of \<^verbatim>\<open>data\<close>, the linked list \<^verbatim>\<open>marker_list\<close> is a list.
\<close>

record jpeg_marker_struct =
  marker :: "8 word"
  data :: "JOCTET list"

definition data_length :: "jpeg_marker_struct \<Rightarrow> nat" where
  "data_length m = length (data m)"

datatype J_COLOR_SPACE =
  JCS_UNKNOWN | JCS_GRAYSCALE | JCS_RGB | JCS_YCbCr | JCS_CMYK | JCS_YCCK

record jpeg_decompress_struct =
  jpeg_color_space :: J_COLOR_SPACE
  out_color_space :: J_COLOR_SPACE
  num_components :: nat
  saw_Adobe_marker :: bool
  marker_list :: "jpeg_marker_struct list"

text \<open>
  The compressor. \<^verbatim>\<open>written\<close> is the sequence of markers handed to
  \<^verbatim>\<open>jpeg_write_marker\<close> so far, each with its code and the bytes written. The
  resolution fields of the two structures are left out, and with them
  \<^verbatim>\<open>HandlePhotoshopAPP13\<close>, which only sets them and a flag that is never read.
\<close>

record jpeg_compress_struct =
  in_color_space :: J_COLOR_SPACE
  c_jpeg_color_space :: J_COLOR_SPACE
  input_components :: nat
  write_JFIF_header :: bool
  write_Adobe_marker :: bool
  written :: "(int \<times> JOCTET list) list"

text \<open>\<^verbatim>\<open>jpeg_write_marker (cinfo, marker, dataptr, datalen)\<close> emits \<^verbatim>\<open>datalen\<close> bytes read
  from \<^verbatim>\<open>dataptr\<close>.\<close>

definition jpeg_write_marker ::
    "jpeg_compress_struct \<Rightarrow> int \<Rightarrow> JOCTET list \<Rightarrow> nat \<Rightarrow> jpeg_compress_struct" where
  "jpeg_write_marker cinfo mk dataptr datalen =
     cinfo\<lparr>written := written cinfo @ [(mk, take datalen dataptr)]\<rparr>"

subsection \<open>The ITU T.42 fax markers\<close>

text \<open>
  \<^verbatim>\<open>IsITUFax\<close>: \<^verbatim>\<open>strcmp (data, "G3FAX") == 0\<close> holds when the payload starts with the
  five letters and a zero byte; \<^verbatim>\<open>data_length > 5\<close> keeps the six reads inside the payload.
\<close>

definition G3FAX :: "JOCTET list" where
  "G3FAX = [0x47, 0x33, 0x46, 0x41, 0x58, 0x00]"

fun IsITUFax :: "jpeg_marker_struct list \<Rightarrow> bool" where
  "IsITUFax [] = False"
| "IsITUFax (p # ptr) =
     (if uint (marker p) = JPEG_APP0 + 1 \<and> data_length p > 5 \<and> take 6 (data p) = G3FAX
      then True else IsITUFax ptr)"

text \<open>
  \<^verbatim>\<open>SetITUFax\<close>. The array is initialised from the string literal
  \<^verbatim>\<open>"G3FAX\x00\0x07\xCA\x00\xC8"\<close>. A C compiler reads it as: the five letters; the
  hexadecimal escape \<^verbatim>\<open>\x00\<close>; the octal escape \<^verbatim>\<open>\0\<close> (it ends at \<^verbatim>\<open>x\<close>, which is no octal
  digit); the three plain characters \<^verbatim>\<open>x\<close>, \<^verbatim>\<open>0\<close>, \<^verbatim>\<open>7\<close>; the escapes \<^verbatim>\<open>\xCA\<close>, \<^verbatim>\<open>\x00\<close>,
  \<^verbatim>\<open>\xC8\<close>; and the terminating zero. The array has 14 bytes, of which the first 10 are
  written.
\<close>

definition Marker :: "JOCTET list" where
  "Marker = [0x47, 0x33, 0x46, 0x41, 0x58, 0x00, 0x00, 0x78, 0x30, 0x37, 0xCA, 0x00, 0xC8, 0x00]"

definition SetITUFax :: "jpeg_compress_struct \<Rightarrow> jpeg_compress_struct" where
  "SetITUFax cinfo = jpeg_write_marker cinfo (JPEG_APP0 + 1) Marker 10"

subsection \<open>Copying the saved markers\<close>

fun copy_markers ::
    "jpeg_marker_struct list \<Rightarrow> jpeg_compress_struct \<Rightarrow> jpeg_compress_struct" where
  "copy_markers [] dstinfo = dstinfo"
| "copy_markers (m # rest) dstinfo =
     (if write_JFIF_header dstinfo \<and>
         uint (marker m) = JPEG_APP0 \<and>
         data_length m \<ge> 5 \<and>
         data m ! 0 = 0x4A \<and>
         data m ! 1 = 0x46 \<and>
         data m ! 2 = 0x49 \<and>
         data m ! 3 = 0x46 \<and>
         data m ! 4 = 0
      then copy_markers rest dstinfo
      else if write_Adobe_marker dstinfo \<and>
         uint (marker m) = JPEG_APP0 + 14 \<and>
         data_length m \<ge> 5 \<and>
         data m ! 0 = 0x41 \<and>
         data m ! 1 = 0x64 \<and>
         data m ! 2 = 0x6F \<and>
         data m ! 3 = 0x62 \<and>
         data m ! 4 = 0x65
      then copy_markers rest dstinfo
      else copy_markers rest
             (jpeg_write_marker dstinfo (uint (marker m)) (data m) (data_length m)))"

definition jcopy_markers_execute ::
    "jpeg_decompress_struct \<Rightarrow> jpeg_compress_struct \<Rightarrow> jpeg_compress_struct" where
  "jcopy_markers_execute srcinfo dstinfo = copy_markers (marker_list srcinfo) dstinfo"

text \<open>
  The words of the specification for the copy: a marker is a JFIF header when it is an APP0
  whose payload begins with \<^verbatim>\<open>JFIF\<close> and a zero byte, and a vendor colour marker when it is
  an APP14 whose payload begins with \<^verbatim>\<open>Adobe\<close>; these two are left out when the destination
  writes its own.
\<close>

definition is_JFIF :: "jpeg_marker_struct \<Rightarrow> bool" where
  "is_JFIF m \<longleftrightarrow> uint (marker m) = 0xE0 \<and> take 5 (data m) = [0x4A, 0x46, 0x49, 0x46, 0x00]"

definition is_Adobe :: "jpeg_marker_struct \<Rightarrow> bool" where
  "is_Adobe m \<longleftrightarrow> uint (marker m) = 0xEE \<and> take 5 (data m) = [0x41, 0x64, 0x6F, 0x62, 0x65]"

definition dropped :: "jpeg_compress_struct \<Rightarrow> jpeg_marker_struct \<Rightarrow> bool" where
  "dropped dstinfo m \<longleftrightarrow>
     (write_JFIF_header dstinfo \<and> is_JFIF m) \<or> (write_Adobe_marker dstinfo \<and> is_Adobe m)"

definition emitted :: "jpeg_marker_struct \<Rightarrow> int \<times> JOCTET list" where
  "emitted m = (uint (marker m), data m)"

subsection \<open>How the program ends early\<close>

text \<open>
  \<^verbatim>\<open>FatalError\<close> prints its message and ends the program; one constructor stands for each
  message of jpgicc.c. \<^verbatim>\<open>Help\<close> ends it with \<^verbatim>\<open>exit (0)\<close>. \<open>Null_profile\<close> is a NULL
  profile handle given to \<^verbatim>\<open>cmsGetColorSpace\<close> or \<^verbatim>\<open>cmsGetPCS\<close>, which read the profile
  through it.
\<close>

datatype abort =
    Device_link_already_specified
  | Profiles_already_specified
  | Unknown_precalc_mode int
  | Unknown_option
  | Help_exit int
  | Unsupported_color_space J_COLOR_SPACE
  | Unsupported_output_color_space
  | Input_profile_not_in_proper_color_space
  | Cannot_transform
  | Null_profile

subsection \<open>The flags and the command line\<close>

record globals =
  BlackPointCompensation :: bool
  IgnoreEmbedded :: bool
  GamutCheck :: bool
  lIsDeviceLink :: bool
  EmbedProfile :: bool
  SaveEmbedded :: "string option"
  Intent :: int
  ProofingIntent :: int
  PrecalcMode :: int
  jpegQuality :: int
  cInpProf :: "string option"
  cOutProf :: "string option"
  cProofing :: "string option"
  Verbose :: bool

text \<open>The initialisers of the static variables (\<^verbatim>\<open>INTENT_PERCEPTUAL\<close> is 0).\<close>

definition initial_globals :: globals where
  "initial_globals =
     \<lparr>BlackPointCompensation = False, IgnoreEmbedded = False, GamutCheck = False,
      lIsDeviceLink = False, EmbedProfile = False, SaveEmbedded = None,
      Intent = 0, ProofingIntent = 0, PrecalcMode = 1, jpegQuality = 75,
      cInpProf = None, cOutProf = None, cProofing = None, Verbose = False\<rparr>"

text \<open>
  \<^verbatim>\<open>atoi\<close> of the C library: white space, an optional sign, then the decimal digits up
  to the first character that is none; 0 when there is no digit. (A value outside \<^verbatim>\<open>int\<close>
  is undefined in C and not modelled: the result here is unbounded.)
\<close>

definition is_digit :: "char \<Rightarrow> bool" where
  "is_digit c \<longleftrightarrow> 48 \<le> (of_char c :: nat) \<and> (of_char c :: nat) \<le> 57"

definition is_space :: "char \<Rightarrow> bool" where
  "is_space c \<longleftrightarrow> (of_char c :: nat) = 32 \<or> (9 \<le> (of_char c :: nat) \<and> (of_char c :: nat) \<le> 13)"

fun digits :: "int \<Rightarrow> string \<Rightarrow> int" where
  "digits acc [] = acc"
| "digits acc (c # cs) =
     (if is_digit c then digits (10 * acc + (int (of_char c) - 48)) cs else acc)"

fun atoi :: "string \<Rightarrow> int" where
  "atoi [] = 0"
| "atoi (c # cs) =
     (if is_space c then atoi cs
      else if c = CHR ''-'' then - digits 0 cs
      else if c = CHR ''+'' then digits 0 cs
      else digits 0 (c # cs))"

text \<open>
  One round of the loop of \<^verbatim>\<open>HandleSwitches\<close>: \<open>s\<close> is the option letter that
  \<^verbatim>\<open>xgetopt\<close> returned and \<open>xoptarg\<close> its argument.
\<close>

definition HandleSwitch :: "globals \<Rightarrow> char \<Rightarrow> string \<Rightarrow> abort + globals" where
  "HandleSwitch G s xoptarg =
     (if s = CHR ''b'' \<or> s = CHR ''B'' then Inr (G\<lparr>BlackPointCompensation := True\<rparr>)
      else if s = CHR ''v'' \<or> s = CHR ''V'' then Inr (G\<lparr>Verbose := True\<rparr>)
      else if s = CHR ''i'' \<or> s = CHR ''I'' then
        (if lIsDeviceLink G then Inl Device_link_already_specified
         else Inr (G\<lparr>cInpProf := Some xoptarg\<rparr>))
      else if s = CHR ''o'' \<or> s = CHR ''O'' then
        (if lIsDeviceLink G then Inl Device_link_already_specified
         else Inr (G\<lparr>cOutProf := Some xoptarg\<rparr>))
      else if s = CHR ''l'' \<or> s = CHR ''L'' then
        (if cInpProf G \<noteq> None \<or> cOutProf G \<noteq> None then Inl Profiles_already_specified
         else Inr (G\<lparr>cInpProf := Some xoptarg, lIsDeviceLink := True\<rparr>))
      else if s = CHR ''p'' \<or> s = CHR ''P'' then Inr (G\<lparr>cProofing := Some xoptarg\<rparr>)
      else if s = CHR ''t'' \<or> s = CHR ''T'' then Inr (G\<lparr>Intent := atoi xoptarg\<rparr>)
      else if s = CHR ''N'' \<or> s = CHR ''n'' then Inr (G\<lparr>IgnoreEmbedded := True\<rparr>)
      else if s = CHR ''e'' \<or> s = CHR ''E'' then Inr (G\<lparr>EmbedProfile := True\<rparr>)
      else if s = CHR ''g'' \<or> s = CHR ''G'' then Inr (G\<lparr>GamutCheck := True\<rparr>)
      else if s = CHR ''c'' \<or> s = CHR ''C'' then
        (let G' = G\<lparr>PrecalcMode := atoi xoptarg\<rparr>
         in if PrecalcMode G' < 0 \<or> PrecalcMode G' > 2
            then Inl (Unknown_precalc_mode (PrecalcMode G'))
            else Inr G')
      else if s = CHR ''H'' \<or> s = CHR ''h'' then Inl (Help_exit (atoi xoptarg))
      else if s = CHR ''q'' \<or> s = CHR ''Q'' then
        (let q = atoi xoptarg;
             q1 = (if q > 100 then 100 else q);
             q2 = (if q1 < 0 then 0 else q1)
         in Inr (G\<lparr>jpegQuality := q2\<rparr>))
      else if s = CHR ''m'' \<or> s = CHR ''M'' then Inr (G\<lparr>ProofingIntent := atoi xoptarg\<rparr>)
      else if s = CHR ''s'' \<or> s = CHR ''S'' then Inr (G\<lparr>SaveEmbedded := Some xoptarg\<rparr>)
      else Inl Unknown_option)"

fun HandleSwitches :: "globals \<Rightarrow> (char \<times> string) list \<Rightarrow> abort + globals" where
  "HandleSwitches G [] = Inr G"
| "HandleSwitches G ((s, xoptarg) # rest) =
     (case HandleSwitch G s xoptarg of
        Inl e \<Rightarrow> Inl e
      | Inr G' \<Rightarrow> HandleSwitches G' rest)"

text \<open>
  The flag word of the transform. The values of the \<^verbatim>\<open>cmsFLAGS_\<close> macros are in
  \<^verbatim>\<open>lcms2.h\<close>; the word is kept as the set of the flags or-ed into it.
\<close>

datatype cmsFLAGS =
    cmsFLAGS_BLACKPOINTCOMPENSATION
  | cmsFLAGS_NOOPTIMIZE
  | cmsFLAGS_HIGHRESPRECALC
  | cmsFLAGS_LOWRESPRECALC
  | cmsFLAGS_GAMUTCHECK
  | cmsFLAGS_SOFTPROOFING

text \<open>The first statements of \<^verbatim>\<open>TransformImage\<close>, up to the call of \<^verbatim>\<open>GetInputPixelType\<close>.\<close>

definition precalc_flags :: "int \<Rightarrow> cmsFLAGS set \<Rightarrow> cmsFLAGS set" where
  "precalc_flags mode dwFlags =
     (if mode = 0 then insert cmsFLAGS_NOOPTIMIZE dwFlags
      else if mode = 2 then insert cmsFLAGS_HIGHRESPRECALC dwFlags
      else if mode = 3 then insert cmsFLAGS_LOWRESPRECALC dwFlags
      else dwFlags)"

definition initial_flags :: "globals \<Rightarrow> cmsFLAGS set" where
  "initial_flags G =
     (let dwFlags = {};
          dwFlags = (if BlackPointCompensation G
                     then insert cmsFLAGS_BLACKPOINTCOMPENSATION dwFlags else dwFlags);
          dwFlags = precalc_flags (PrecalcMode G) dwFlags;
          dwFlags = (if GamutCheck G then insert cmsFLAGS_GAMUTCHECK dwFlags else dwFlags)
      in dwFlags)"

subsection \<open>Doubles\<close>

text \<open>
  The \<^verbatim>\<open>double\<close> of the source is IEEE 754 binary64, and every operation on doubles is
  the exact operation on the reals followed by rounding to the nearest double, ties to the
  even significand (the default rounding mode, each intermediate result kept as a double).
  A double is then a real number, and \<open>rnd\<close> is the rounding: the doubles near \<open>x\<close> are
  the multiples of \<open>quantum x\<close>, which is \<open>2\<close> to the power of the binary exponent of
  \<open>x\<close> minus 52, and never less than the smallest subnormal \<open>2 powr - 1074\<close>. Overflow to
  infinity is left out: \<open>rnd\<close> of a number beyond the largest double is a finite number
  here. No theorem below depends on such a number other than through \<open>to_u16\<close>, which is
  undefined for it as it is for an infinity. The logarithm finds the exponent; at a given
  number \<open>rnd\<close> is computed by rounding an integer, once the exponent is known (lemma
  \<open>rnd_eval\<close> below).
\<close>

definition quantum_exp :: "real \<Rightarrow> int" where
  "quantum_exp x = max (\<lfloor>log 2 \<bar>x\<bar>\<rfloor> - 52) (- 1074)"

definition quantum :: "real \<Rightarrow> real" where
  "quantum x = 2 powr of_int (quantum_exp x)"

definition round_even :: "real \<Rightarrow> int" where
  "round_even t =
     (if t - of_int \<lfloor>t\<rfloor> < 1 / 2 then \<lfloor>t\<rfloor>
      else if 1 / 2 < t - of_int \<lfloor>t\<rfloor> then \<lfloor>t\<rfloor> + 1
      else if even \<lfloor>t\<rfloor> then \<lfloor>t\<rfloor> else \<lfloor>t\<rfloor> + 1)"

definition rnd :: "real \<Rightarrow> real" where
  "rnd x = (if x = 0 then 0 else of_int (round_even (x / quantum x)) * quantum x)"

text \<open>The operators \<^verbatim>\<open>/\<close>, \<^verbatim>\<open>*\<close>, \<^verbatim>\<open>+\<close>, \<^verbatim>\<open>-\<close> of C on doubles, and \<^verbatim>\<open>floor\<close>, which is exact.\<close>

definition dbl_div :: "real \<Rightarrow> real \<Rightarrow> real" where
  "dbl_div x y = rnd (x / y)"

definition dbl_mul :: "real \<Rightarrow> real \<Rightarrow> real" where
  "dbl_mul x y = rnd (x * y)"

definition dbl_add :: "real \<Rightarrow> real \<Rightarrow> real" where
  "dbl_add x y = rnd (x + y)"

definition dbl_sub :: "real \<Rightarrow> real \<Rightarrow> real" where
  "dbl_sub x y = rnd (x - y)"

definition dbl_floor :: "real \<Rightarrow> real" where
  "dbl_floor x = of_int \<lfloor>x\<rfloor>"

text \<open>
  Two bounds for the error of one rounding: half a unit in the last place of a normal
  double is at most \<open>unit_roundoff\<close> times its size, and of a subnormal one far less than
  \<open>tiny\<close>.
\<close>

definition unit_roundoff :: real where
  "unit_roundoff = 1 / 2 ^ 53"

definition tiny :: real where
  "tiny = 1 / 2 ^ 101"

type_synonym cmsUInt16Number = "16 word"

text \<open>A 16-bit sample used as a double: the conversion is exact.\<close>

definition dbl_of_u16 :: "cmsUInt16Number \<Rightarrow> real" where
  "dbl_of_u16 w = of_int (uint w)"

text \<open>
  The cast \<^verbatim>\<open>(cmsUInt16Number) x\<close> of a double: the fraction is dropped, and the result
  is defined by C only when what is left can be represented; \<open>None\<close> is the undefined
  conversion.
\<close>

definition trunc :: "real \<Rightarrow> int" where
  "trunc x = (if 0 \<le> x then \<lfloor>x\<rfloor> else \<lceil>x\<rceil>)"

definition to_u16 :: "real \<Rightarrow> cmsUInt16Number option" where
  "to_u16 x =
     (if 0 \<le> trunc x \<and> trunc x \<le> 65535 then Some (word_of_int (trunc x)) else None)"

subsection \<open>The fax encoding of Lab\<close>

record cmsCIELab =
  Lab_L :: real
  Lab_a :: real
  Lab_b :: real

text \<open>An array of three 16-bit samples.\<close>

type_synonym sample = "cmsUInt16Number \<times> cmsUInt16Number \<times> cmsUInt16Number"

text \<open>The literal \<^verbatim>\<open>655.35\<close> is the double nearest to that number.\<close>

definition ITU2Lab :: "sample \<Rightarrow> cmsCIELab" where
  "ITU2Lab In =
     (case In of (In0, In1, In2) \<Rightarrow>
       \<lparr>Lab_L = dbl_div (dbl_of_u16 In0) (rnd (65535 / 100)),
        Lab_a = dbl_div (dbl_mul 170 (dbl_sub (dbl_of_u16 In1) 32768)) 65535,
        Lab_b = dbl_div (dbl_mul 200 (dbl_sub (dbl_of_u16 In2) 24576)) 65535\<rparr>)"

text \<open>
  \<^verbatim>\<open>Lab2ITU\<close>: the three doubles that the calls of \<^verbatim>\<open>floor\<close> return, and their
  conversion to 16-bit samples.
\<close>

definition Lab2ITU_floors :: "cmsCIELab \<Rightarrow> real \<times> real \<times> real" where
  "Lab2ITU_floors Lab =
     (dbl_floor (dbl_mul (dbl_div (Lab_L Lab) 100) 65535),
      dbl_floor (dbl_add (dbl_mul (dbl_div (Lab_a Lab) 170) 65535) 32768),
      dbl_floor (dbl_add (dbl_mul (dbl_div (Lab_b Lab) 200) 65535) 24576))"

definition Lab2ITU :: "cmsCIELab \<Rightarrow> sample option" where
  "Lab2ITU Lab =
     (case Lab2ITU_floors Lab of (f0, f1, f2) \<Rightarrow>
       (case to_u16 f0 of
          None \<Rightarrow> None
        | Some Out0 \<Rightarrow>
           (case to_u16 f1 of
              None \<Rightarrow> None
            | Some Out1 \<Rightarrow>
               (case to_u16 f2 of
                  None \<Rightarrow> None
                | Some Out2 \<Rightarrow> Some (Out0, Out1, Out2)))))"

text \<open>
  The codec in the words of the specification, on the numbers themselves and in the same
  arithmetic: decoding takes three integers, encoding gives the three floors.
\<close>

definition FaxCodec_decode :: "int \<times> int \<times> int \<Rightarrow> cmsCIELab" where
  "FaxCodec_decode s =
     (case s of (L16, a16, b16) \<Rightarrow>
       \<lparr>Lab_L = dbl_div (of_int L16) (rnd (65535 / 100)),
        Lab_a = dbl_div (dbl_mul 170 (dbl_sub (of_int a16) 32768)) 65535,
        Lab_b = dbl_div (dbl_mul 200 (dbl_sub (of_int b16) 24576)) 65535\<rparr>)"

definition FaxCodec_encode :: "cmsCIELab \<Rightarrow> int \<times> int \<times> int" where
  "FaxCodec_encode Lab =
     (\<lfloor>dbl_mul (dbl_div (Lab_L Lab) 100) 65535\<rfloor>,
      \<lfloor>dbl_add (dbl_mul (dbl_div (Lab_a Lab) 170) 65535) 32768\<rfloor>,
      \<lfloor>dbl_add (dbl_mul (dbl_div (Lab_b Lab) 200) 65535) 24576\<rfloor>)"

definition sample_ints :: "sample \<Rightarrow> int \<times> int \<times> int" where
  "sample_ints s = (case s of (s0, s1, s2) \<Rightarrow> (uint s0, uint s1, uint s2))"

text \<open>The envelope that the fax encoding can hold.\<close>

definition encodable :: "cmsCIELab \<Rightarrow> bool" where
  "encodable Lab \<longleftrightarrow>
     0 \<le> Lab_L Lab \<and> Lab_L Lab \<le> 100 \<and>
     - 85 \<le> Lab_a Lab \<and> Lab_a Lab \<le> 85 \<and>
     - 75 \<le> Lab_b Lab \<and> Lab_b Lab \<le> 125"

subsection \<open>What jpgicc sees of lcms2\<close>

text \<open>
  The colour space codes \<^verbatim>\<open>PT_\<close> of a pixel format, the colour space signatures and the
  profile classes of \<^verbatim>\<open>lcms2.h\<close>, and the two tags that jpgicc writes. \<open>PT_other\<close> and
  \<open>cmsSigOtherData\<close> stand for the codes that jpgicc.c does not name.
\<close>

datatype PT =
  PT_GRAY | PT_RGB | PT_CMY | PT_CMYK | PT_YCbCr | PT_YUV | PT_Lab | PT_other nat

datatype cmsColorSpaceSignature =
    cmsSigXYZData | cmsSigLabData | cmsSigLuvData | cmsSigYCbCrData
  | cmsSigGrayData | cmsSigRgbData | cmsSigCmykData | cmsSigCmyData
  | cmsSigOtherData nat

datatype cmsProfileClassSignature =
    cmsSigInputClass | cmsSigDisplayClass | cmsSigOutputClass | cmsSigLinkClass
  | cmsSigAbstractClass | cmsSigColorSpaceClass | cmsSigNamedColorClass

datatype cmsTagSignature = cmsSigAToB0Tag | cmsSigBToA0Tag

text \<open>
  A CLUT stage: the number of grid points on each axis, the numbers of input and output
  channels, and the table, which holds for a node (its three indices) the three samples
  stored there. An entry is \<open>None\<close> where the sampler's result is an undefined conversion.
\<close>

record cmsStage =
  nGridPoints :: nat
  inputChan :: nat
  outputChan :: nat
  Table :: "((nat \<times> nat \<times> nat) \<times> sample option) list"

type_synonym cmsPipeline = "cmsStage list"

text \<open>A profile: what its header declares, and its tags. A NULL handle is \<open>None\<close>.\<close>

record cmsProfile =
  ColorSpace :: cmsColorSpaceSignature
  PCS :: cmsColorSpaceSignature
  DeviceClass :: cmsProfileClassSignature
  Tags :: "(cmsTagSignature \<times> cmsPipeline) list"

type_synonym cmsHPROFILE = "cmsProfile option"

text \<open>
  Modelled from the spec: the macros \<^verbatim>\<open>COLORSPACE_SH\<close>, \<^verbatim>\<open>T_COLORSPACE\<close> and their like,
  which \<^verbatim>\<open>lcms2.h\<close> defines and jpgicc.c only uses. The format word packs its fields into
  bit ranges that do not overlap (specification, sections 3 and 6), so the word is the
  record of its fields: each \<^verbatim>\<open>T_\<close> macro reads what the \<^verbatim>\<open>_SH\<close> macro of the same name
  stored.
\<close>

record cmsFormat =
  T_COLORSPACE :: PT
  T_CHANNELS :: nat
  T_BYTES :: nat
  T_EXTRA :: nat
  T_PLANAR :: nat
  T_FLAVOR :: nat

text \<open>The arguments of \<^verbatim>\<open>cmsCreateProofingTransform\<close>, under the names lcms2 gives them.\<close>

record xform_request =
  Input :: cmsHPROFILE
  InputFormat :: cmsFormat
  Output :: cmsHPROFILE
  OutputFormat :: cmsFormat
  Proofing :: cmsHPROFILE
  nIntent :: int
  nProofingIntent :: int
  dwFlags :: "cmsFLAGS set"

text \<open>
  The functions of lcms2, of its utilities and of libjpeg that jpgicc.c calls and that are
  defined elsewhere are parameters of the model, the fields of one record.
  \<^verbatim>\<open>read_icc_profile\<close> looks for the embedded profile in the saved markers. The three
  allocations say whether they succeed (\<^verbatim>\<open>cmsCreateProfilePlaceholder\<close> gives the empty
  profile it allocates); \<open>cmsQuantizeVal i n\<close> is the 16-bit coordinate of grid point
  \<open>i\<close> of \<open>n\<close>.
\<close>

record externals =
  cmsstrcasecmp :: "string \<Rightarrow> string \<Rightarrow> int"
  OpenStockProfile :: "string option \<Rightarrow> cmsHPROFILE"
  cmsOpenProfileFromFile :: "string option \<Rightarrow> cmsHPROFILE"
  cmsOpenProfileFromMem :: "JOCTET list \<Rightarrow> cmsHPROFILE"
  read_icc_profile :: "jpeg_marker_struct list \<Rightarrow> JOCTET list option"
  cmsICCcolorSpace :: "PT \<Rightarrow> cmsColorSpaceSignature"
  cmsLCMScolorSpace :: "cmsColorSpaceSignature \<Rightarrow> PT"
  cmsCreateProofingTransform :: "xform_request \<Rightarrow> bool"
  cmsLabEncoded2Float :: "sample \<Rightarrow> cmsCIELab"
  cmsFloat2LabEncoded :: "cmsCIELab \<Rightarrow> sample"
  cmsQuantizeVal :: "nat \<Rightarrow> nat \<Rightarrow> cmsUInt16Number"
  cmsPipelineAlloc :: bool
  cmsStageAlloc :: bool
  cmsCreateProfilePlaceholder :: cmsHPROFILE
  jpeg_copy_critical_parameters ::
    "jpeg_decompress_struct \<Rightarrow> jpeg_compress_struct \<Rightarrow> jpeg_compress_struct"
  jpeg_set_defaults :: "jpeg_compress_struct \<Rightarrow> jpeg_compress_struct"
  jpeg_set_colorspace :: "jpeg_compress_struct \<Rightarrow> J_COLOR_SPACE \<Rightarrow> jpeg_compress_struct"
  jpeg_set_quality :: "jpeg_compress_struct \<Rightarrow> int \<Rightarrow> bool \<Rightarrow> jpeg_compress_struct"
  DoEmbedProfile :: "string \<Rightarrow> jpeg_compress_struct \<Rightarrow> jpeg_compress_struct"

subsection \<open>Gamut mapping\<close>

text \<open>
  Modelled from the spec: \<^verbatim>\<open>cmsDesaturateLab\<close>, a function of the lcms2 library that
  jpgicc.c calls with the bounds \<^verbatim>\<open>amax\<close>, \<^verbatim>\<open>amin\<close>, \<^verbatim>\<open>bmax\<close>, \<^verbatim>\<open>bmin\<close>. The specification
  (section 4.2) has it clip a and b into the rectangle of the bounds, keep the hue angle
  and leave L as it is, total, with the colours inside the rectangle and on its edge
  unchanged. The rectangle holds the neutral axis, so the colour of the same hue on the
  edge is the one that shrinks a and b by one common factor: the largest that brings both
  inside. The arithmetic here is exact.
\<close>

definition axis_factor :: "real \<Rightarrow> real \<Rightarrow> real \<Rightarrow> real" where
  "axis_factor v vmax vmin =
     (if v > vmax then vmax / v else if v < vmin then vmin / v else 1)"

definition cmsDesaturateLab ::
    "cmsCIELab \<Rightarrow> real \<Rightarrow> real \<Rightarrow> real \<Rightarrow> real \<Rightarrow> cmsCIELab" where
  "cmsDesaturateLab Lab amax amin bmax bmin =
     (let t = min (axis_factor (Lab_a Lab) amax amin) (axis_factor (Lab_b Lab) bmax bmin)
      in Lab\<lparr>Lab_a := t * Lab_a Lab, Lab_b := t * Lab_b Lab\<rparr>)"

subsection \<open>The virtual profiles\<close>

definition GRID_POINTS :: nat where
  "GRID_POINTS = 33"

text \<open>The samplers. Both return \<^verbatim>\<open>TRUE\<close>; the result here is what they leave in \<^verbatim>\<open>Out\<close>.\<close>

definition PCS2ITU :: "externals \<Rightarrow> sample \<Rightarrow> sample option" where
  "PCS2ITU K In =
     (let Lab = cmsLabEncoded2Float K In;
          Lab = cmsDesaturateLab Lab 85 (- 85) 125 (- 75)
      in Lab2ITU Lab)"

definition ITU2PCS :: "externals \<Rightarrow> sample \<Rightarrow> sample option" where
  "ITU2PCS K In = (let Lab = ITU2Lab In in Some (cmsFloat2LabEncoded K Lab))"

text \<open>
  Modelled from the spec: \<^verbatim>\<open>cmsStageAllocCLut16bit\<close> and \<^verbatim>\<open>cmsStageSampleCLut16bit\<close> of
  the lcms2 library. The first allocates a table of the given side and channels, all
  zero; the second fills it by calling the sampler once at every node of the grid
  (specification, sections 3 and 4.4). The nodes are the triples of indices below the
  number of grid points.
\<close>

definition grid :: "nat \<Rightarrow> (nat \<times> nat \<times> nat) list" where
  "grid n = concat (map (\<lambda>i. concat (map (\<lambda>j. map (\<lambda>k. (i, j, k)) [0..<n]) [0..<n])) [0..<n])"

definition cmsStageAllocCLut16bit :: "externals \<Rightarrow> nat \<Rightarrow> nat \<Rightarrow> nat \<Rightarrow> cmsStage option" where
  "cmsStageAllocCLut16bit K n inputs outputs =
     (if cmsStageAlloc K
      then Some \<lparr>nGridPoints = n, inputChan = inputs, outputChan = outputs,
                 Table = map (\<lambda>node. (node, Some (0, 0, 0))) (grid n)\<rparr>
      else None)"

definition cmsStageSampleCLut16bit ::
    "externals \<Rightarrow> cmsStage \<Rightarrow> (sample \<Rightarrow> sample option) \<Rightarrow> cmsStage" where
  "cmsStageSampleCLut16bit K mpe Sampler =
     mpe\<lparr>Table :=
       map (\<lambda>node. case node of (i, j, k) \<Rightarrow>
              (node, Sampler (cmsQuantizeVal K i (nGridPoints mpe),
                              cmsQuantizeVal K j (nGridPoints mpe),
                              cmsQuantizeVal K k (nGridPoints mpe))))
           (grid (nGridPoints mpe))\<rparr>"

definition cmsWriteTag :: "cmsProfile \<Rightarrow> cmsTagSignature \<Rightarrow> cmsPipeline \<Rightarrow> cmsProfile" where
  "cmsWriteTag hProfile sig lut = hProfile\<lparr>Tags := (sig, lut) # Tags hProfile\<rparr>"

text \<open>
  \<^verbatim>\<open>CreateITU2PCS_ICC\<close> and \<^verbatim>\<open>CreatePCS2ITU_ICC\<close>. The pipeline refers to the stage that
  was inserted, so the table sampled after the insertion is the table of the pipeline that
  is written to the profile.
\<close>

definition CreateITU2PCS_ICC :: "externals \<Rightarrow> cmsHPROFILE" where
  "CreateITU2PCS_ICC K =
     (if \<not> cmsPipelineAlloc K then None
      else case cmsStageAllocCLut16bit K GRID_POINTS 3 3 of
        None \<Rightarrow> None
      | Some ColorMap \<Rightarrow>
          (let AToB0 = [cmsStageSampleCLut16bit K ColorMap (ITU2PCS K)]
           in case cmsCreateProfilePlaceholder K of
                None \<Rightarrow> None
              | Some hProfile \<Rightarrow>
                  Some ((cmsWriteTag hProfile cmsSigAToB0Tag AToB0)
                          \<lparr>ColorSpace := cmsSigLabData,
                           PCS := cmsSigLabData,
                           DeviceClass := cmsSigColorSpaceClass\<rparr>)))"

definition CreatePCS2ITU_ICC :: "externals \<Rightarrow> cmsHPROFILE" where
  "CreatePCS2ITU_ICC K =
     (if \<not> cmsPipelineAlloc K then None
      else case cmsStageAllocCLut16bit K GRID_POINTS 3 3 of
        None \<Rightarrow> None
      | Some ColorMap \<Rightarrow>
          (let BToA0 = [cmsStageSampleCLut16bit K ColorMap (PCS2ITU K)]
           in case cmsCreateProfilePlaceholder K of
                None \<Rightarrow> None
              | Some hProfile \<Rightarrow>
                  Some ((cmsWriteTag hProfile cmsSigBToA0Tag BToA0)
                          \<lparr>ColorSpace := cmsSigLabData,
                           PCS := cmsSigLabData,
                           DeviceClass := cmsSigColorSpaceClass\<rparr>)))"

text \<open>
  What the specification asks of the table of a virtual profile: 33 grid points on each of
  three axes, three outputs, and at every node of the grid the result of the sampler at
  the coordinates of the node.
\<close>

definition sampled_at_every_node ::
    "externals \<Rightarrow> (sample \<Rightarrow> sample option) \<Rightarrow> cmsStage \<Rightarrow> bool" where
  "sampled_at_every_node K Sampler lut \<longleftrightarrow>
     nGridPoints lut = 33 \<and> inputChan lut = 3 \<and> outputChan lut = 3 \<and>
     length (Table lut) = 33 ^ 3 \<and>
     (\<forall>i < 33. \<forall>j < 33. \<forall>k < 33.
        ((i, j, k), Sampler (cmsQuantizeVal K i 33, cmsQuantizeVal K j 33, cmsQuantizeVal K k 33))
          \<in> set (Table lut))"

subsection \<open>Pixel formats\<close>

text \<open>
  \<^verbatim>\<open>GetInputPixelType\<close>. The flag \<^verbatim>\<open>lIsITUFax\<close> is read nowhere else, so it is the local
  result of \<open>IsITUFax\<close>. The function also sets the colour space that the decompressor
  delivers.
\<close>

definition input_format :: "jpeg_decompress_struct \<Rightarrow> PT \<Rightarrow> nat \<Rightarrow> cmsFormat" where
  "input_format D space Flavor =
     \<lparr>T_COLORSPACE = space, T_CHANNELS = num_components D, T_BYTES = 1, T_EXTRA = 0,
      T_PLANAR = 0, T_FLAVOR = Flavor\<rparr>"

definition GetInputPixelType ::
    "jpeg_decompress_struct \<Rightarrow> abort + (cmsFormat \<times> jpeg_decompress_struct)" where
  "GetInputPixelType D =
     (if IsITUFax (marker_list D)
      then Inr (input_format D PT_Lab 0, D\<lparr>out_color_space := JCS_YCbCr\<rparr>)
      else case jpeg_color_space D of
          JCS_GRAYSCALE \<Rightarrow> Inr (input_format D PT_GRAY 0, D\<lparr>out_color_space := JCS_GRAYSCALE\<rparr>)
        | JCS_RGB \<Rightarrow> Inr (input_format D PT_RGB 0, D\<lparr>out_color_space := JCS_RGB\<rparr>)
        | JCS_YCbCr \<Rightarrow> Inr (input_format D PT_RGB 0, D\<lparr>out_color_space := JCS_RGB\<rparr>)
        | JCS_CMYK \<Rightarrow>
            Inr (input_format D PT_CMYK (if saw_Adobe_marker D then 1 else 0),
                 D\<lparr>out_color_space := JCS_CMYK\<rparr>)
        | JCS_YCCK \<Rightarrow>
            Inr (input_format D PT_CMYK (if saw_Adobe_marker D then 1 else 0),
                 D\<lparr>out_color_space := JCS_CMYK\<rparr>)
        | JCS_UNKNOWN \<Rightarrow> Inl (Unsupported_color_space (jpeg_color_space D)))"

definition output_format :: "cmsFormat \<Rightarrow> PT \<Rightarrow> nat \<Rightarrow> nat \<Rightarrow> cmsFormat" where
  "output_format dwInput OutColorSpace Channels Flavor =
     \<lparr>T_COLORSPACE = OutColorSpace, T_CHANNELS = Channels, T_BYTES = 1, T_EXTRA = 0,
      T_PLANAR = T_PLANAR dwInput, T_FLAVOR = Flavor\<rparr>"

definition ComputeOutputFormatDescriptor ::
    "jpeg_compress_struct \<Rightarrow> cmsFormat \<Rightarrow> PT \<Rightarrow> abort + cmsFormat" where
  "ComputeOutputFormatDescriptor C dwInput OutColorSpace =
     (case OutColorSpace of
        PT_GRAY \<Rightarrow> Inr (output_format dwInput OutColorSpace 1 0)
      | PT_RGB \<Rightarrow> Inr (output_format dwInput OutColorSpace 3 0)
      | PT_CMY \<Rightarrow> Inr (output_format dwInput OutColorSpace 3 0)
      | PT_Lab \<Rightarrow> Inr (output_format dwInput OutColorSpace 3 0)
      | PT_YUV \<Rightarrow> Inr (output_format dwInput OutColorSpace 3 0)
      | PT_YCbCr \<Rightarrow> Inr (output_format dwInput OutColorSpace 3 0)
      | PT_CMYK \<Rightarrow>
          Inr (output_format dwInput OutColorSpace 4 (if write_Adobe_marker C then 1 else 0))
      | PT_other c \<Rightarrow> Inl Unsupported_output_color_space)"

text \<open>
  \<^verbatim>\<open>WriteOutputFields\<close>. The sampling factors that it sets for a quality of 70 and more
  are not among the fields of the compressor kept here.
\<close>

definition WriteOutputFields ::
    "externals \<Rightarrow> globals \<Rightarrow> jpeg_compress_struct \<Rightarrow> PT \<Rightarrow> abort + jpeg_compress_struct" where
  "WriteOutputFields K G C OutputColorSpace =
     (case (case OutputColorSpace of
              PT_GRAY \<Rightarrow> Some (JCS_GRAYSCALE, JCS_GRAYSCALE, 1)
            | PT_RGB \<Rightarrow> Some (JCS_RGB, JCS_YCbCr, 3)
            | PT_YCbCr \<Rightarrow> Some (JCS_YCbCr, JCS_YCbCr, 3)
            | PT_CMYK \<Rightarrow> Some (JCS_CMYK, JCS_YCCK, 4)
            | PT_Lab \<Rightarrow> Some (JCS_YCbCr, JCS_YCbCr, 3)
            | PT_CMY \<Rightarrow> None
            | PT_YUV \<Rightarrow> None
            | PT_other c \<Rightarrow> None) of
        None \<Rightarrow> Inl Unsupported_output_color_space
      | Some (in_space, jpeg_space0, components) \<Rightarrow>
          (let jpeg_space = (if jpegQuality G \<ge> 100 then in_space else jpeg_space0);
               C = C\<lparr>in_color_space := in_space, c_jpeg_color_space := jpeg_space,
                      input_components := components\<rparr>;
               C = jpeg_set_defaults K C;
               C = jpeg_set_colorspace K C jpeg_space;
               C = (if OutputColorSpace = PT_CMYK then C\<lparr>write_JFIF_header := True\<rparr> else C);
               C = jpeg_set_quality K C (jpegQuality G) True
           in Inr C))"

subsection \<open>Choosing the profiles\<close>

text \<open>
  The call by which \<^verbatim>\<open>TransformImage\<close> gets a profile: from the bytes embedded in the
  source, by building one of the two virtual profiles, from \<^verbatim>\<open>OpenStockProfile\<close> (whose
  argument is NULL when no name is configured) or, for a device link, from the file.
\<close>

datatype profile_source =
    Embedded "JOCTET list"
  | Virtual_ITU2PCS
  | Virtual_PCS2ITU
  | Stock "string option"
  | Device_link "string option"

definition open_profile :: "externals \<Rightarrow> profile_source \<Rightarrow> cmsHPROFILE" where
  "open_profile K src =
     (case src of
        Embedded EmbedBuffer \<Rightarrow> cmsOpenProfileFromMem K EmbedBuffer
      | Virtual_ITU2PCS \<Rightarrow> CreateITU2PCS_ICC K
      | Virtual_PCS2ITU \<Rightarrow> CreatePCS2ITU_ICC K
      | Stock name \<Rightarrow> OpenStockProfile K name
      | Device_link name \<Rightarrow> cmsOpenProfileFromFile K name)"

definition named_lab :: "externals \<Rightarrow> string option \<Rightarrow> bool" where
  "named_lab K name =
     (case name of None \<Rightarrow> False | Some n \<Rightarrow> cmsstrcasecmp K n ''*lab'' = 0)"

definition input_source ::
    "externals \<Rightarrow> globals \<Rightarrow> jpeg_decompress_struct \<Rightarrow> cmsFormat \<Rightarrow> string option
      \<Rightarrow> profile_source" where
  "input_source K G D wInput cDefInpProf =
     (if lIsDeviceLink G then Device_link cDefInpProf
      else case (if IgnoreEmbedded G then None else read_icc_profile K (marker_list D)) of
          Some EmbedBuffer \<Rightarrow> Embedded EmbedBuffer
        | None \<Rightarrow>
            (let cDefInpProf =
                   (if cDefInpProf = None \<and> T_COLORSPACE wInput = PT_Lab
                    then Some ''*Lab'' else cDefInpProf)
             in if named_lab K cDefInpProf then Virtual_ITU2PCS else Stock cDefInpProf))"

definition output_source :: "externals \<Rightarrow> string option \<Rightarrow> profile_source" where
  "output_source K cOutProf' =
     (if named_lab K cOutProf' then Virtual_PCS2ITU else Stock cOutProf')"

subsection \<open>Transforming one image\<close>

text \<open>
  In \<^verbatim>\<open>TransformImage\<close> the parameter \<^verbatim>\<open>cOutProf\<close> hides the global variable of that
  name; it is \<open>cOutProf'\<close> here. \<^verbatim>\<open>main\<close> passes the two global names.

  \<^verbatim>\<open>DoTransform\<close>: what it hands to \<^verbatim>\<open>jpeg_write_marker\<close> before the scan lines. Reading,
  transforming and writing the scan lines is the work of libjpeg and of
  \<^verbatim>\<open>cmsDoTransform\<close> and changes none of the fields kept here.
\<close>

definition DoTransform ::
    "externals \<Rightarrow> globals \<Rightarrow> jpeg_compress_struct \<Rightarrow> PT \<Rightarrow> jpeg_compress_struct" where
  "DoTransform K G C OutputColorSpace =
     (let C = (if OutputColorSpace = PT_Lab then SetITUFax C else C);
          C = (case cOutProf G of
                 Some name \<Rightarrow> if EmbedProfile G then DoEmbedProfile K name C else C
               | None \<Rightarrow> C)
      in C)"

record conversion =
  transform :: xform_request
  Decompressor :: jpeg_decompress_struct
  Compressor :: jpeg_compress_struct

definition OutputColorSpace_of ::
    "externals \<Rightarrow> globals \<Rightarrow> cmsProfile \<Rightarrow> cmsHPROFILE \<Rightarrow> abort + PT" where
  "OutputColorSpace_of K G hIn hOut =
     (if lIsDeviceLink G then Inr (cmsLCMScolorSpace K (PCS hIn))
      else case hOut of
          None \<Rightarrow> Inl Null_profile
        | Some pOut \<Rightarrow> Inr (cmsLCMScolorSpace K (ColorSpace pOut)))"

definition TransformImage ::
    "externals \<Rightarrow> globals \<Rightarrow> jpeg_decompress_struct \<Rightarrow> jpeg_compress_struct
      \<Rightarrow> string option \<Rightarrow> string option \<Rightarrow> abort + conversion" where
  "TransformImage K G D C cDefInpProf cOutProf' =
     (let flags = initial_flags G in
      case GetInputPixelType D of
        Inl e \<Rightarrow> Inl e
      | Inr (wInput, D) \<Rightarrow>
         (let hIn = open_profile K (input_source K G D wInput cDefInpProf);
              hOut = (if lIsDeviceLink G then None
                      else open_profile K (output_source K cOutProf'));
              soft = (\<not> lIsDeviceLink G \<and> cProofing G \<noteq> None);
              hProof = (if soft then OpenStockProfile K (cProofing G) else None);
              flags = (if soft then insert cmsFLAGS_SOFTPROOFING flags else flags)
          in case hIn of
               None \<Rightarrow> Inl Null_profile
             | Some pIn \<Rightarrow>
                if ColorSpace pIn \<noteq> cmsICCcolorSpace K (T_COLORSPACE wInput)
                then Inl Input_profile_not_in_proper_color_space
                else
                 (case OutputColorSpace_of K G pIn hOut of
                    Inl e \<Rightarrow> Inl e
                  | Inr OutputColorSpace \<Rightarrow>
                     (case WriteOutputFields K G (jpeg_copy_critical_parameters K D C)
                             OutputColorSpace of
                        Inl e \<Rightarrow> Inl e
                      | Inr C \<Rightarrow>
                         (case ComputeOutputFormatDescriptor C wInput OutputColorSpace of
                            Inl e \<Rightarrow> Inl e
                          | Inr wOutput \<Rightarrow>
                             (let xform = \<lparr>Input = hIn, InputFormat = wInput,
                                           Output = hOut, OutputFormat = wOutput,
                                           Proofing = hProof, nIntent = Intent G,
                                           nProofingIntent = ProofingIntent G,
                                           dwFlags = flags\<rparr>
                              in if \<not> cmsCreateProofingTransform K xform
                                 then Inl Cannot_transform
                                 else
                                  (let C = DoTransform K G C OutputColorSpace;
                                       C = jcopy_markers_execute D C
                                   in Inr \<lparr>transform = xform, Decompressor = D,
                                           Compressor = C\<rparr>)))))))"

subsection \<open>An environment to run the model in\<close>

text \<open>
  One choice of the parameters, for the concrete runs below: names are compared without
  regard to case, no name and the name \<^verbatim>\<open>*sRGB\<close> open an sRGB profile and no other
  profile can be opened, the colour space codes and signatures correspond one to one,
  every allocation succeeds and libjpeg changes none of the fields kept here.
\<close>

definition toupper :: "char \<Rightarrow> nat" where
  "toupper c =
     (if 97 \<le> (of_char c :: nat) \<and> (of_char c :: nat) \<le> 122
      then (of_char c :: nat) - 32 else of_char c)"

definition sRGB :: cmsProfile where
  "sRGB = \<lparr>ColorSpace = cmsSigRgbData, PCS = cmsSigXYZData,
           DeviceClass = cmsSigDisplayClass, Tags = []\<rparr>"

definition placeholder :: cmsProfile where
  "placeholder = \<lparr>ColorSpace = cmsSigOtherData 0, PCS = cmsSigOtherData 0,
                  DeviceClass = cmsSigInputClass, Tags = []\<rparr>"

fun ICCcolorSpace :: "PT \<Rightarrow> cmsColorSpaceSignature" where
  "ICCcolorSpace PT_GRAY = cmsSigGrayData"
| "ICCcolorSpace PT_RGB = cmsSigRgbData"
| "ICCcolorSpace PT_CMY = cmsSigCmyData"
| "ICCcolorSpace PT_CMYK = cmsSigCmykData"
| "ICCcolorSpace PT_YCbCr = cmsSigYCbCrData"
| "ICCcolorSpace PT_YUV = cmsSigLuvData"
| "ICCcolorSpace PT_Lab = cmsSigLabData"
| "ICCcolorSpace (PT_other c) = cmsSigOtherData c"

fun LCMScolorSpace :: "cmsColorSpaceSignature \<Rightarrow> PT" where
  "LCMScolorSpace cmsSigGrayData = PT_GRAY"
| "LCMScolorSpace cmsSigRgbData = PT_RGB"
| "LCMScolorSpace cmsSigCmyData = PT_CMY"
| "LCMScolorSpace cmsSigCmykData = PT_CMYK"
| "LCMScolorSpace cmsSigYCbCrData = PT_YCbCr"
| "LCMScolorSpace cmsSigLuvData = PT_YUV"
| "LCMScolorSpace cmsSigLabData = PT_Lab"
| "LCMScolorSpace cmsSigXYZData = PT_other 9"
| "LCMScolorSpace (cmsSigOtherData c) = PT_other c"

definition env :: externals where
  "env =
     \<lparr>cmsstrcasecmp = (\<lambda>s t. if map toupper s = map toupper t then 0 else 1),
      OpenStockProfile =
        (\<lambda>name. if name = None \<or> name = Some ''*sRGB'' then Some sRGB else None),
      cmsOpenProfileFromFile = (\<lambda>name. None),
      cmsOpenProfileFromMem = (\<lambda>buf. None),
      read_icc_profile = (\<lambda>ms. None),
      cmsICCcolorSpace = ICCcolorSpace,
      cmsLCMScolorSpace = LCMScolorSpace,
      cmsCreateProofingTransform = (\<lambda>x. True),
      cmsLabEncoded2Float = (\<lambda>In. \<lparr>Lab_L = 0, Lab_a = 0, Lab_b = 0\<rparr>),
      cmsFloat2LabEncoded = (\<lambda>Lab. (0, 0, 0)),
      cmsQuantizeVal = (\<lambda>i n. word_of_nat (i * 65535 div (n - 1))),
      cmsPipelineAlloc = True,
      cmsStageAlloc = True,
      cmsCreateProfilePlaceholder = Some placeholder,
      jpeg_copy_critical_parameters = (\<lambda>D C. C),
      jpeg_set_defaults = (\<lambda>C. C),
      jpeg_set_colorspace = (\<lambda>C space. C),
      jpeg_set_quality = (\<lambda>C q force. C),
      DoEmbedProfile = (\<lambda>name C. C)\<rparr>"

text \<open>A fax source and a plain colour source, and an unused compressor.\<close>

definition fax_source :: jpeg_decompress_struct where
  "fax_source =
     \<lparr>jpeg_color_space = JCS_YCbCr, out_color_space = JCS_YCbCr, num_components = 3,
      saw_Adobe_marker = False,
      marker_list = [\<lparr>marker = 0xE1,
                       data = [0x47, 0x33, 0x46, 0x41, 0x58, 0x00, 0x07, 0xCA, 0x00, 0xC8]\<rparr>]\<rparr>"

definition rgb_source :: jpeg_decompress_struct where
  "rgb_source =
     \<lparr>jpeg_color_space = JCS_YCbCr, out_color_space = JCS_YCbCr, num_components = 3,
      saw_Adobe_marker = False,
      marker_list = [\<lparr>marker = 0xE0, data = [0x4A, 0x46, 0x49, 0x46, 0x00, 0x01, 0x01]\<rparr>]\<rparr>"

definition cmyk_source :: jpeg_decompress_struct where
  "cmyk_source =
     \<lparr>jpeg_color_space = JCS_YCCK, out_color_space = JCS_CMYK, num_components = 4,
      saw_Adobe_marker = True,
      marker_list = [\<lparr>marker = 0xEE, data = [0x41, 0x64, 0x6F, 0x62, 0x65, 0x00, 0x64]\<rparr>]\<rparr>"

definition fresh_compressor :: jpeg_compress_struct where
  "fresh_compressor =
     \<lparr>in_color_space = JCS_UNKNOWN, c_jpeg_color_space = JCS_UNKNOWN, input_components = 4,
      write_JFIF_header = False, write_Adobe_marker = False, written = []\<rparr>"

section \<open>Properties\<close>

subsection \<open>Marker copy\<close>

lemma take5_eq:
  "take 5 xs = [a, b, c, d, e] \<longleftrightarrow>
     length xs \<ge> 5 \<and> xs ! 0 = a \<and> xs ! 1 = b \<and> xs ! 2 = c \<and> xs ! 3 = d \<and> xs ! 4 = e"
proof (cases xs)
  case Nil
  then show ?thesis by simp
next
  case (Cons x1 r1)
  note c1 = this
  show ?thesis
  proof (cases r1)
    case Nil
    with c1 show ?thesis by simp
  next
    case (Cons x2 r2)
    note c2 = this
    show ?thesis
    proof (cases r2)
      case Nil
      with c1 c2 show ?thesis by simp
    next
      case (Cons x3 r3)
      note c3 = this
      show ?thesis
      proof (cases r3)
        case Nil
        with c1 c2 c3 show ?thesis by simp
      next
        case (Cons x4 r4)
        note c4 = this
        show ?thesis
        proof (cases r4)
          case Nil
          with c1 c2 c3 c4 show ?thesis by simp
        next
          case (Cons x5 r5)
          with c1 c2 c3 c4 show ?thesis by auto
        qed
      qed
    qed
  qed
qed

lemma copy_markers_flags:
  "write_JFIF_header (copy_markers ms dst) = write_JFIF_header dst \<and>
   write_Adobe_marker (copy_markers ms dst) = write_Adobe_marker dst"
  by (induction ms arbitrary: dst) (simp_all add: jpeg_write_marker_def)

lemma copy_markers_written:
  "written (copy_markers ms dst) =
     written dst @ map emitted (filter (\<lambda>m. \<not> dropped dst m) ms)"
proof (induction ms arbitrary: dst)
  case Nil
  show ?case by simp
next
  case (Cons m ms)
  let ?dst' = "jpeg_write_marker dst (uint (marker m)) (data m) (data_length m)"
  have same: "dropped ?dst' = dropped dst"
    by (rule ext) (simp add: dropped_def jpeg_write_marker_def)
  have jfif: "is_JFIF m \<longleftrightarrow>
      uint (marker m) = JPEG_APP0 \<and> data_length m \<ge> 5 \<and> data m ! 0 = 0x4A \<and>
      data m ! 1 = 0x46 \<and> data m ! 2 = 0x49 \<and> data m ! 3 = 0x46 \<and> data m ! 4 = 0"
    unfolding is_JFIF_def take5_eq by (simp add: JPEG_APP0_def data_length_def)
  have adobe: "is_Adobe m \<longleftrightarrow>
      uint (marker m) = JPEG_APP0 + 14 \<and> data_length m \<ge> 5 \<and> data m ! 0 = 0x41 \<and>
      data m ! 1 = 0x64 \<and> data m ! 2 = 0x6F \<and> data m ! 3 = 0x62 \<and> data m ! 4 = 0x65"
    unfolding is_Adobe_def take5_eq by (simp add: JPEG_APP0_def data_length_def)
  show ?case
  proof (cases "dropped dst m")
    case True
    then have "copy_markers (m # ms) dst = copy_markers ms dst"
      unfolding dropped_def jfif adobe by auto
    with True Cons.IH [of dst] show ?thesis by simp
  next
    case False
    then have "copy_markers (m # ms) dst = copy_markers ms ?dst'"
      unfolding dropped_def jfif adobe by auto
    moreover have "written ?dst' = written dst @ [emitted m]"
      by (simp add: jpeg_write_marker_def emitted_def data_length_def)
    ultimately show ?thesis
      using False Cons.IH [of ?dst'] by (simp add: same)
  qed
qed

subsection \<open>The fax marker that is written\<close>

text \<open>
  C1. When the output colour space is the fax Lab encoding, the program writes one APP1
  marker of 10 bytes before the scan lines (here with no profile to embed). The
  specification wants the identifier \<^verbatim>\<open>G3FAX\<close> with its zero byte, the version 07 CA and
  the resolution 00 C8. The bytes that \<^verbatim>\<open>SetITUFax\<close> writes are the identifier followed by
  00 78 30 37: the literal of the source has \<^verbatim>\<open>\0x07\<close> where \<^verbatim>\<open>\x07\<close> was meant.
\<close>

theorem SetITUFax_writes:
  "written (SetITUFax cinfo) =
     written cinfo @
       [(0xE1, [0x47, 0x33, 0x46, 0x41, 0x58, 0x00, 0x00, 0x78, 0x30, 0x37])] \<and>
   written (DoTransform K (G\<lparr>EmbedProfile := False\<rparr>) cinfo PT_Lab) =
     written cinfo @
       [(0xE1, [0x47, 0x33, 0x46, 0x41, 0x58, 0x00, 0x00, 0x78, 0x30, 0x37])]"
  by (simp add: DoTransform_def Let_def SetITUFax_def jpeg_write_marker_def Marker_def
        JPEG_APP0_def split: option.splits)

subsection \<open>The precalculation mode\<close>

text \<open>
  C2. The four precalculation modes 0 to 3 are meant to be accepted, mode 3 giving the
  low resolution flag. \<^verbatim>\<open>TransformImage\<close> has the case for mode 3 and the help text lists
  it, but \<^verbatim>\<open>HandleSwitches\<close> refuses every mode above 2: the option \<^verbatim>\<open>-c3\<close> ends the
  program with the message for an unknown precalculation mode.
\<close>

theorem HandleSwitches_c3:
  "HandleSwitches initial_globals [(CHR ''c'', ''3'')] = Inl (Unknown_precalc_mode 3)"
  by (simp add: HandleSwitch_def is_digit_def is_space_def Let_def)

lemma HandleSwitches_c_accepted:
  "HandleSwitches initial_globals [(CHR ''c'', ''0'')] = Inr (initial_globals\<lparr>PrecalcMode := 0\<rparr>)"
  "HandleSwitches initial_globals [(CHR ''c'', ''1'')] = Inr (initial_globals\<lparr>PrecalcMode := 1\<rparr>)"
  "HandleSwitches initial_globals [(CHR ''c'', ''2'')] = Inr (initial_globals\<lparr>PrecalcMode := 2\<rparr>)"
  by (simp_all add: HandleSwitch_def is_digit_def is_space_def Let_def)

lemma precalc_flags_modes:
  "precalc_flags 0 F = insert cmsFLAGS_NOOPTIMIZE F"
  "precalc_flags 1 F = F"
  "precalc_flags 2 F = insert cmsFLAGS_HIGHRESPRECALC F"
  "precalc_flags 3 F = insert cmsFLAGS_LOWRESPRECALC F"
  by (simp_all add: precalc_flags_def)

subsection \<open>The markers that are copied\<close>

text \<open>
  C8. For every sequence of saved markers, \<^verbatim>\<open>jcopy_markers_execute\<close> writes, after what
  was written before and in the order of the source, the code and the whole payload of
  every marker except the JFIF header markers when the destination writes its own JFIF
  header and the Adobe markers when the destination writes its own Adobe marker; the two
  flags of the destination stay as they were.
\<close>

theorem jcopy_markers_execute_filter:
  "written (jcopy_markers_execute srcinfo dstinfo) =
     written dstinfo @
       map emitted (filter (\<lambda>m. \<not> dropped dstinfo m) (marker_list srcinfo)) \<and>
   write_JFIF_header (jcopy_markers_execute srcinfo dstinfo) = write_JFIF_header dstinfo \<and>
   write_Adobe_marker (jcopy_markers_execute srcinfo dstinfo) = write_Adobe_marker dstinfo"
  unfolding jcopy_markers_execute_def
  using copy_markers_written [of "marker_list srcinfo" dstinfo]
        copy_markers_flags [of "marker_list srcinfo" dstinfo]
  by simp

theorem jcopy_markers_execute_filter_witness:
  "written (jcopy_markers_execute
      \<lparr>jpeg_color_space = JCS_YCbCr, out_color_space = JCS_RGB, num_components = 3,
       saw_Adobe_marker = True,
       marker_list =
         [\<lparr>marker = 0xE0, data = [0x4A, 0x46, 0x49, 0x46, 0x00, 0x01, 0x02]\<rparr>,
          \<lparr>marker = 0xE1, data = [0x45, 0x78, 0x69, 0x66, 0x00, 0x00]\<rparr>,
          \<lparr>marker = 0xEE, data = [0x41, 0x64, 0x6F, 0x62, 0x65, 0x00, 0x64]\<rparr>,
          \<lparr>marker = 0xE0, data = [0x4A, 0x46, 0x58, 0x58, 0x00]\<rparr>,
          \<lparr>marker = 0xEE, data = [0x41, 0x64]\<rparr>]\<rparr>
      \<lparr>in_color_space = JCS_RGB, c_jpeg_color_space = JCS_YCbCr, input_components = 3,
       write_JFIF_header = True, write_Adobe_marker = True, written = []\<rparr>) =
   [(0xE1, [0x45, 0x78, 0x69, 0x66, 0x00, 0x00]),
    (0xE0, [0x4A, 0x46, 0x58, 0x58, 0x00]),
    (0xEE, [0x41, 0x64])]"
  by (simp add: jcopy_markers_execute_filter dropped_def is_JFIF_def is_Adobe_def emitted_def)

subsection \<open>The virtual profiles\<close>

lemma length_grid: "length (grid n) = n ^ 3"
  by (simp add: grid_def length_concat comp_def sum_list_triv power3_eq_cube)

lemma set_grid: "set (grid n) = {(i, j, k). i < n \<and> j < n \<and> k < n}"
  by (auto simp: grid_def image_iff)

lemma sampled_stage:
  assumes "cmsStageAllocCLut16bit K GRID_POINTS 3 3 = Some ColorMap"
  shows "sampled_at_every_node K Sampler (cmsStageSampleCLut16bit K ColorMap Sampler)"
proof -
  have cm: "nGridPoints ColorMap = 33" "inputChan ColorMap = 3" "outputChan ColorMap = 3"
    using assms by (auto simp: cmsStageAllocCLut16bit_def GRID_POINTS_def split: if_splits)
  have "\<And>i j k. i < 33 \<Longrightarrow> j < 33 \<Longrightarrow> k < 33 \<Longrightarrow> (i, j, k) \<in> set (grid 33)"
    by (simp add: set_grid)
  then show ?thesis
    unfolding sampled_at_every_node_def cmsStageSampleCLut16bit_def
    by (simp add: cm length_grid image_iff) force
qed

lemma CreateITU2PCS_ICC_Some:
  assumes "CreateITU2PCS_ICC K = Some p"
  shows "ColorSpace p = cmsSigLabData \<and> PCS p = cmsSigLabData \<and>
         DeviceClass p = cmsSigColorSpaceClass \<and>
         (\<exists>lut. map_of (Tags p) cmsSigAToB0Tag = Some [lut] \<and>
                sampled_at_every_node K (ITU2PCS K) lut)"
proof -
  from assms obtain ColorMap h where
    cm: "cmsStageAllocCLut16bit K GRID_POINTS 3 3 = Some ColorMap" and
    p: "p = (cmsWriteTag h cmsSigAToB0Tag [cmsStageSampleCLut16bit K ColorMap (ITU2PCS K)])
          \<lparr>ColorSpace := cmsSigLabData, PCS := cmsSigLabData,
           DeviceClass := cmsSigColorSpaceClass\<rparr>"
    by (auto simp: CreateITU2PCS_ICC_def Let_def split: if_splits option.splits)
  show ?thesis
    using sampled_stage [OF cm, of "ITU2PCS K"] by (simp add: p cmsWriteTag_def)
qed

lemma CreatePCS2ITU_ICC_Some:
  assumes "CreatePCS2ITU_ICC K = Some p"
  shows "ColorSpace p = cmsSigLabData \<and> PCS p = cmsSigLabData \<and>
         DeviceClass p = cmsSigColorSpaceClass \<and>
         (\<exists>lut. map_of (Tags p) cmsSigBToA0Tag = Some [lut] \<and>
                sampled_at_every_node K (PCS2ITU K) lut)"
proof -
  from assms obtain ColorMap h where
    cm: "cmsStageAllocCLut16bit K GRID_POINTS 3 3 = Some ColorMap" and
    p: "p = (cmsWriteTag h cmsSigBToA0Tag [cmsStageSampleCLut16bit K ColorMap (PCS2ITU K)])
          \<lparr>ColorSpace := cmsSigLabData, PCS := cmsSigLabData,
           DeviceClass := cmsSigColorSpaceClass\<rparr>"
    by (auto simp: CreatePCS2ITU_ICC_def Let_def split: if_splits option.splits)
  show ?thesis
    using sampled_stage [OF cm, of "PCS2ITU K"] by (simp add: p cmsWriteTag_def)
qed

lemma Create_ICC_succeeds:
  assumes "cmsPipelineAlloc K" "cmsStageAlloc K" "cmsCreateProfilePlaceholder K \<noteq> None"
  shows "CreateITU2PCS_ICC K \<noteq> None \<and> CreatePCS2ITU_ICC K \<noteq> None"
  using assms
  by (auto simp: CreateITU2PCS_ICC_def CreatePCS2ITU_ICC_def cmsStageAllocCLut16bit_def Let_def)

text \<open>
  C3, as the code has it. Both virtual profiles are assembled with the declared colour
  space Lab, the connection space Lab and the device class "colour space": the inverse
  profile is no device link. The forward profile holds its table under the tag AToB0, the
  inverse one under BToA0; each table has 33 grid points on three axes and holds at every
  one of the 33 * 33 * 33 nodes what the sampler of its direction gives there. Both
  profiles are built whenever the three allocations succeed.
\<close>

theorem virtual_profiles:
  "(CreateITU2PCS_ICC K = Some p \<longrightarrow>
      ColorSpace p = cmsSigLabData \<and> PCS p = cmsSigLabData \<and>
      DeviceClass p = cmsSigColorSpaceClass \<and>
      (\<exists>lut. map_of (Tags p) cmsSigAToB0Tag = Some [lut] \<and>
             sampled_at_every_node K (ITU2PCS K) lut)) \<and>
   (CreatePCS2ITU_ICC K = Some p' \<longrightarrow>
      ColorSpace p' = cmsSigLabData \<and> PCS p' = cmsSigLabData \<and>
      DeviceClass p' = cmsSigColorSpaceClass \<and>
      (\<exists>lut. map_of (Tags p') cmsSigBToA0Tag = Some [lut] \<and>
             sampled_at_every_node K (PCS2ITU K) lut)) \<and>
   (cmsPipelineAlloc K \<and> cmsStageAlloc K \<and> cmsCreateProfilePlaceholder K \<noteq> None \<longrightarrow>
      CreateITU2PCS_ICC K \<noteq> None \<and> CreatePCS2ITU_ICC K \<noteq> None)"
  using CreateITU2PCS_ICC_Some [of K p] CreatePCS2ITU_ICC_Some [of K p']
    Create_ICC_succeeds [of K]
  by blast

lemma env_allocs:
  "cmsPipelineAlloc env" "cmsStageAlloc env" "cmsCreateProfilePlaceholder env \<noteq> None"
  by (simp_all add: env_def)

theorem virtual_profiles_witness:
  "CreateITU2PCS_ICC env \<noteq> None \<and> CreatePCS2ITU_ICC env \<noteq> None \<and>
   ColorSpace (the (CreateITU2PCS_ICC env)) = cmsSigLabData \<and>
   PCS (the (CreateITU2PCS_ICC env)) = cmsSigLabData \<and>
   DeviceClass (the (CreateITU2PCS_ICC env)) = cmsSigColorSpaceClass \<and>
   ColorSpace (the (CreatePCS2ITU_ICC env)) = cmsSigLabData \<and>
   PCS (the (CreatePCS2ITU_ICC env)) = cmsSigLabData \<and>
   DeviceClass (the (CreatePCS2ITU_ICC env)) = cmsSigColorSpaceClass"
  using virtual_profiles [of env "the (CreateITU2PCS_ICC env)" "the (CreatePCS2ITU_ICC env)"]
    env_allocs
  by auto

text \<open>
  C3 as the specification words it fails: the inverse profile that is built has the class
  "colour space", not the class of device links.
\<close>

theorem inverse_profile_class_counterexample:
  "CreatePCS2ITU_ICC env \<noteq> None \<and>
   DeviceClass (the (CreatePCS2ITU_ICC env)) \<noteq> cmsSigLinkClass"
proof -
  obtain p where p: "CreatePCS2ITU_ICC env = Some p"
    using Create_ICC_succeeds [of env] env_allocs by auto
  then have "DeviceClass p = cmsSigColorSpaceClass"
    using CreatePCS2ITU_ICC_Some by blast
  with p show ?thesis by simp
qed

subsection \<open>Gamut mapping\<close>

lemma axis_factor_nonneg:
  assumes "vmin \<le> 0" "0 \<le> vmax"
  shows "0 \<le> axis_factor v vmax vmin"
  using assms by (auto simp: axis_factor_def divide_nonpos_neg)

lemma scaled_in_range:
  assumes "vmin \<le> 0" "0 \<le> vmax" "0 \<le> t" "t \<le> axis_factor v vmax vmin"
  shows "vmin \<le> t * v \<and> t * v \<le> vmax"
proof -
  consider (above) "v > vmax" | (below) "v < vmin" | (inside) "vmin \<le> v" "v \<le> vmax"
    by linarith
  then show ?thesis
  proof cases
    case above
    then have v: "0 < v" using assms(2) by simp
    have "t \<le> vmax / v" using assms(4) above by (simp add: axis_factor_def)
    then have "t * v \<le> vmax" using v by (simp add: pos_le_divide_eq)
    moreover have "0 \<le> t * v" using assms(3) v by simp
    ultimately show ?thesis using assms(1) by simp
  next
    case below
    then have v: "v < 0" using assms(1) by simp
    have "\<not> v > vmax" using v assms(2) by simp
    then have "t \<le> vmin / v" using assms(4) below by (simp add: axis_factor_def)
    then have "vmin \<le> t * v" using v by (simp add: neg_le_divide_eq)
    moreover have "t * v \<le> 0" using assms(3) v by (simp add: mult_nonneg_nonpos)
    ultimately show ?thesis using assms(2) by simp
  next
    case inside
    then have t1: "t \<le> 1" using assms(4) by (simp add: axis_factor_def)
    show ?thesis
    proof (cases "0 \<le> v")
      case True
      then have "t * v \<le> 1 * v" using t1 by (intro mult_right_mono) auto
      moreover have "0 \<le> t * v" using assms(3) True by simp
      ultimately show ?thesis using inside assms(1) by simp
    next
      case False
      then have "1 * v \<le> t * v" using t1 by (intro mult_right_mono_neg) auto
      moreover have "t * v \<le> 0" using assms(3) False by (simp add: mult_nonneg_nonpos)
      ultimately show ?thesis using inside assms(2) by simp
    qed
  qed
qed

lemma cmsDesaturateLab_inside:
  assumes "amin \<le> Lab_a Lab" "Lab_a Lab \<le> amax" "bmin \<le> Lab_b Lab" "Lab_b Lab \<le> bmax"
  shows "cmsDesaturateLab Lab amax amin bmax bmin = Lab"
  using assms by (simp add: cmsDesaturateLab_def axis_factor_def)

lemma cmsDesaturateLab_range:
  assumes "amin \<le> 0" "0 \<le> amax" "bmin \<le> 0" "0 \<le> bmax"
  shows "amin \<le> Lab_a (cmsDesaturateLab Lab amax amin bmax bmin) \<and>
         Lab_a (cmsDesaturateLab Lab amax amin bmax bmin) \<le> amax \<and>
         bmin \<le> Lab_b (cmsDesaturateLab Lab amax amin bmax bmin) \<and>
         Lab_b (cmsDesaturateLab Lab amax amin bmax bmin) \<le> bmax \<and>
         Lab_L (cmsDesaturateLab Lab amax amin bmax bmin) = Lab_L Lab"
proof -
  define t where "t = min (axis_factor (Lab_a Lab) amax amin) (axis_factor (Lab_b Lab) bmax bmin)"
  have t0: "0 \<le> t"
    using axis_factor_nonneg [OF assms(1,2)] axis_factor_nonneg [OF assms(3,4)]
    by (simp add: t_def)
  have "t \<le> axis_factor (Lab_a Lab) amax amin" "t \<le> axis_factor (Lab_b Lab) bmax bmin"
    by (simp_all add: t_def)
  then have "amin \<le> t * Lab_a Lab \<and> t * Lab_a Lab \<le> amax"
       "bmin \<le> t * Lab_b Lab \<and> t * Lab_b Lab \<le> bmax"
    using scaled_in_range assms t0 by blast+
  then show ?thesis
    by (simp add: cmsDesaturateLab_def Let_def t_def)
qed

text \<open>
  C6. For every Lab colour, the desaturation that the inverse sampler \<^verbatim>\<open>PCS2ITU\<close> applies
  (bounds 85, -85, 125, -75) gives a colour with a between -85 and 85 and b between -75
  and 125, and a colour whose a and b are inside these bounds, the edges included, comes
  back unchanged. The desaturation is the one described by the specification, not the
  code of the library.
\<close>

theorem desaturate_envelope:
  "- 85 \<le> Lab_a (cmsDesaturateLab Lab 85 (- 85) 125 (- 75)) \<and>
   Lab_a (cmsDesaturateLab Lab 85 (- 85) 125 (- 75)) \<le> 85 \<and>
   - 75 \<le> Lab_b (cmsDesaturateLab Lab 85 (- 85) 125 (- 75)) \<and>
   Lab_b (cmsDesaturateLab Lab 85 (- 85) 125 (- 75)) \<le> 125 \<and>
   (- 85 \<le> Lab_a Lab \<and> Lab_a Lab \<le> 85 \<and> - 75 \<le> Lab_b Lab \<and> Lab_b Lab \<le> 125 \<longrightarrow>
      cmsDesaturateLab Lab 85 (- 85) 125 (- 75) = Lab) \<and>
   PCS2ITU K In = Lab2ITU (cmsDesaturateLab (cmsLabEncoded2Float K In) 85 (- 85) 125 (- 75))"
  using cmsDesaturateLab_range [of "- 85" 85 "- 75" 125 Lab]
    cmsDesaturateLab_inside [of "- 85" Lab 85 "- 75" 125]
  by (simp add: PCS2ITU_def)

theorem desaturate_envelope_witness:
  "cmsDesaturateLab \<lparr>Lab_L = 50, Lab_a = 85, Lab_b = - 75\<rparr> 85 (- 85) 125 (- 75)
     = \<lparr>Lab_L = 50, Lab_a = 85, Lab_b = - 75\<rparr> \<and>
   Lab_a (cmsDesaturateLab \<lparr>Lab_L = 50, Lab_a = 100, Lab_b = 120\<rparr> 85 (- 85) 125 (- 75)) \<le> 85 \<and>
   Lab_b (cmsDesaturateLab \<lparr>Lab_L = 50, Lab_a = 100, Lab_b = 120\<rparr> 85 (- 85) 125 (- 75)) \<le> 125"
  using desaturate_envelope [of "\<lparr>Lab_L = 50, Lab_a = 85, Lab_b = - 75\<rparr>"]
    desaturate_envelope [of "\<lparr>Lab_L = 50, Lab_a = 100, Lab_b = 120\<rparr>"]
  by simp

subsection \<open>Choosing the input profile\<close>

lemma named_lab_None: "named_lab K None = False"
  by (simp add: named_lab_def)

lemma input_source_unconfigured:
  assumes "IgnoreEmbedded G \<or> read_icc_profile K (marker_list D) = None"
    and "\<not> lIsDeviceLink G"
    and "cmsstrcasecmp K ''*Lab'' ''*lab'' = 0"
  shows "input_source K G D wInput None =
           (if T_COLORSPACE wInput = PT_Lab then Virtual_ITU2PCS else Stock None)"
  using assms by (auto simp: input_source_def named_lab_def)

lemma GetInputPixelType_fax:
  assumes "IsITUFax (marker_list D)"
  shows "GetInputPixelType D = Inr (input_format D PT_Lab 0, D\<lparr>out_color_space := JCS_YCbCr\<rparr>)"
  using assms by (simp add: GetInputPixelType_def)

lemma GetInputPixelType_markers:
  assumes "GetInputPixelType D = Inr (wInput, D')"
  shows "marker_list D' = marker_list D"
  using assms by (auto simp: GetInputPixelType_def split: if_splits J_COLOR_SPACE.splits)

lemma env_strcasecmp: "cmsstrcasecmp env ''*Lab'' ''*lab'' = 0"
  by (simp add: env_def toupper_def)

lemma env_no_embedded: "read_icc_profile env ms = None"
  by (simp add: env_def)

lemma GetInputPixelType_cmyk:
  "GetInputPixelType cmyk_source =
     Inr (input_format cmyk_source PT_CMYK 1, cmyk_source\<lparr>out_color_space := JCS_CMYK\<rparr>)"
  by (simp add: GetInputPixelType_def cmyk_source_def JPEG_APP0_def)

lemma GetInputPixelType_rgb:
  "GetInputPixelType rgb_source =
     Inr (input_format rgb_source PT_RGB 0, rgb_source\<lparr>out_color_space := JCS_RGB\<rparr>)"
  by (simp add: GetInputPixelType_def rgb_source_def JPEG_APP0_def)

lemma env_default_input:
  "open_profile env (input_source env initial_globals D (input_format D' PT_CMYK f) None) = Some sRGB"
  "open_profile env (input_source env initial_globals D (input_format D' PT_RGB f) None) = Some sRGB"
  by (simp_all add: input_source_def open_profile_def named_lab_def input_format_def
        initial_globals_def env_def)

text \<open>
  C9, as the code has it. When no embedded profile is used (it is ignored, or the source
  has none), no input profile is configured and the run is no device link,
  \<^verbatim>\<open>TransformImage\<close> takes the forward virtual profile exactly when the colour space of the
  input format is Lab. Otherwise the input profile is what \<^verbatim>\<open>OpenStockProfile\<close> gives when
  called without a name: one and the same profile whatever the colour space of the input
  format, not a default chosen for that colour space. For a source with the fax marker the
  input format is Lab, so with no output profile configured either the input profile is
  the forward virtual profile and the output profile the stock default. The comparison of
  \<^verbatim>\<open>*Lab\<close> with \<^verbatim>\<open>*lab\<close> by \<^verbatim>\<open>cmsstrcasecmp\<close> is taken to give 0.
\<close>

theorem input_profile_resolution:
  assumes "IgnoreEmbedded G \<or> read_icc_profile K (marker_list D) = None"
    and "\<not> lIsDeviceLink G"
    and "cmsstrcasecmp K ''*Lab'' ''*lab'' = 0"
  shows "(input_source K G D wInput None = Virtual_ITU2PCS \<longleftrightarrow> T_COLORSPACE wInput = PT_Lab) \<and>
         (T_COLORSPACE wInput \<noteq> PT_Lab \<longrightarrow>
            input_source K G D wInput None = Stock None \<and>
            open_profile K (input_source K G D wInput None) = OpenStockProfile K None) \<and>
         (IsITUFax (marker_list D) \<longrightarrow>
            (\<exists>wIn D'. GetInputPixelType D = Inr (wIn, D') \<and> T_COLORSPACE wIn = PT_Lab \<and>
               input_source K G D' wIn None = Virtual_ITU2PCS \<and>
               open_profile K (input_source K G D' wIn None) = CreateITU2PCS_ICC K \<and>
               output_source K None = Stock None \<and>
               open_profile K (output_source K None) = OpenStockProfile K None))"
proof -
  have sel: "\<And>w. input_source K G D w None =
      (if T_COLORSPACE w = PT_Lab then Virtual_ITU2PCS else Stock None)"
    using assms by (rule input_source_unconfigured)
  have fax: "IsITUFax (marker_list D) \<longrightarrow>
            (\<exists>wIn D'. GetInputPixelType D = Inr (wIn, D') \<and> T_COLORSPACE wIn = PT_Lab \<and>
               input_source K G D' wIn None = Virtual_ITU2PCS \<and>
               open_profile K (input_source K G D' wIn None) = CreateITU2PCS_ICC K \<and>
               output_source K None = Stock None \<and>
               open_profile K (output_source K None) = OpenStockProfile K None)"
  proof
    assume f: "IsITUFax (marker_list D)"
    let ?D = "D\<lparr>out_color_space := JCS_YCbCr\<rparr>"
    let ?w = "input_format D PT_Lab 0"
    have "IgnoreEmbedded G \<or> read_icc_profile K (marker_list ?D) = None"
      using assms(1) by simp
    then have "input_source K G ?D ?w None =
        (if T_COLORSPACE ?w = PT_Lab then Virtual_ITU2PCS else Stock None)"
      using assms(2,3) by (rule input_source_unconfigured)
    then have s: "input_source K G ?D ?w None = Virtual_ITU2PCS"
      by (simp add: input_format_def)
    show "\<exists>wIn D'. GetInputPixelType D = Inr (wIn, D') \<and> T_COLORSPACE wIn = PT_Lab \<and>
               input_source K G D' wIn None = Virtual_ITU2PCS \<and>
               open_profile K (input_source K G D' wIn None) = CreateITU2PCS_ICC K \<and>
               output_source K None = Stock None \<and>
               open_profile K (output_source K None) = OpenStockProfile K None"
      using GetInputPixelType_fax [OF f] s
      by (intro exI [of _ ?w] exI [of _ ?D])
         (simp add: input_format_def open_profile_def output_source_def named_lab_def)
  qed
  show ?thesis using sel fax by (simp add: open_profile_def)
qed

theorem input_profile_resolution_witness:
  "input_source env initial_globals rgb_source (input_format rgb_source PT_RGB 0) None
     = Stock None \<and>
   open_profile env
       (input_source env initial_globals rgb_source (input_format rgb_source PT_RGB 0) None)
     = OpenStockProfile env None \<and>
   input_source env initial_globals fax_source (input_format fax_source PT_Lab 0) None
     = Virtual_ITU2PCS \<and>
   (\<exists>wIn D'. GetInputPixelType fax_source = Inr (wIn, D') \<and> T_COLORSPACE wIn = PT_Lab \<and>
      input_source env initial_globals D' wIn None = Virtual_ITU2PCS \<and>
      open_profile env (input_source env initial_globals D' wIn None) = CreateITU2PCS_ICC env \<and>
      output_source env None = Stock None \<and>
      open_profile env (output_source env None) = OpenStockProfile env None)"
proof -
  have h1: "\<And>D. IgnoreEmbedded initial_globals \<or> read_icc_profile env (marker_list D) = None"
    by (simp add: env_no_embedded)
  have h2: "\<not> lIsDeviceLink initial_globals"
    by (simp add: initial_globals_def)
  have fax: "IsITUFax (marker_list fax_source)"
    by (simp add: fax_source_def JPEG_APP0_def data_length_def G3FAX_def)
  show ?thesis
    using input_profile_resolution [OF h1 h2 env_strcasecmp,
            of rgb_source "input_format rgb_source PT_RGB 0"]
          input_profile_resolution [OF h1 h2 env_strcasecmp,
            of fax_source "input_format fax_source PT_Lab 0"]
          fax
    by (simp add: input_format_def open_profile_def)
qed

subsection \<open>The colour space check\<close>

lemma OutputColorSpace_of_error:
  "OutputColorSpace_of K G p h = Inl e \<Longrightarrow> e = Null_profile"
  by (auto simp: OutputColorSpace_of_def split: if_splits option.splits)

lemma WriteOutputFields_error:
  "WriteOutputFields K G C cs = Inl e \<Longrightarrow> e = Unsupported_output_color_space"
  by (auto simp: WriteOutputFields_def Let_def split: option.splits prod.splits)

lemma ComputeOutputFormatDescriptor_error:
  "ComputeOutputFormatDescriptor C w cs = Inl e \<Longrightarrow> e = Unsupported_output_color_space"
  by (cases cs) (auto simp: ComputeOutputFormatDescriptor_def)

lemma TransformImage_check:
  assumes "GetInputPixelType D = Inr (wInput, D')"
    and "open_profile K (input_source K G D' wInput cDefInpProf) = Some pIn"
  shows "TransformImage K G D C cDefInpProf cOutProf' = Inl Input_profile_not_in_proper_color_space
           \<longleftrightarrow> ColorSpace pIn \<noteq> cmsICCcolorSpace K (T_COLORSPACE wInput)"
proof (cases "ColorSpace pIn \<noteq> cmsICCcolorSpace K (T_COLORSPACE wInput)")
  case True
  then show ?thesis using assms by (simp add: TransformImage_def Let_def)
next
  case False
  have "TransformImage K G D C cDefInpProf cOutProf' \<noteq> Inl Input_profile_not_in_proper_color_space"
    using assms False
    by (auto simp: TransformImage_def Let_def split: sum.splits if_splits
        dest: OutputColorSpace_of_error WriteOutputFields_error
              ComputeOutputFormatDescriptor_error)
  with False show ?thesis by simp
qed

text \<open>
  C7. Once the input format is known and the input profile is open, \<^verbatim>\<open>TransformImage\<close>
  ends with the message that the input profile is not operating in the proper colour space
  whenever the colour space of the profile differs from the one of the input format (as
  \<^verbatim>\<open>_cmsICCcolorSpace\<close> translates it), and then builds no transform; when the two are
  equal it does not end with this message.
\<close>

theorem profile_mismatch:
  assumes "GetInputPixelType D = Inr (wInput, D')"
    and "open_profile K (input_source K G D' wInput cDefInpProf) = Some pIn"
  shows "(ColorSpace pIn \<noteq> cmsICCcolorSpace K (T_COLORSPACE wInput) \<longrightarrow>
            TransformImage K G D C cDefInpProf cOutProf' =
              Inl Input_profile_not_in_proper_color_space) \<and>
         (ColorSpace pIn = cmsICCcolorSpace K (T_COLORSPACE wInput) \<longrightarrow>
            TransformImage K G D C cDefInpProf cOutProf' \<noteq>
              Inl Input_profile_not_in_proper_color_space)"
  using TransformImage_check [OF assms] by simp

theorem profile_mismatch_witness:
  "TransformImage env initial_globals cmyk_source fresh_compressor None None =
     Inl Input_profile_not_in_proper_color_space \<and>
   TransformImage env initial_globals rgb_source fresh_compressor None None \<noteq>
     Inl Input_profile_not_in_proper_color_space"
  using profile_mismatch [OF GetInputPixelType_cmyk env_default_input(1),
          of fresh_compressor None]
        profile_mismatch [OF GetInputPixelType_rgb env_default_input(2),
          of fresh_compressor None]
  by (simp add: env_def sRGB_def input_format_def)

subsection \<open>The default input profile\<close>

text \<open>
  C9 as the specification words it fails where it has the default be the stock profile
  "for the declared color space". With nothing configured, a CMYK source and an RGB source
  get their input profile by the same call, \<^verbatim>\<open>OpenStockProfile\<close> without a name. Where that
  call opens an sRGB profile, as the help text of the program says it does, the profile
  of the CMYK source is an RGB profile, and \<^verbatim>\<open>TransformImage\<close> ends with the message that
  the input profile is not operating in the proper colour space.
\<close>

theorem default_profile_counterexample:
  "GetInputPixelType cmyk_source =
     Inr (input_format cmyk_source PT_CMYK 1, cmyk_source\<lparr>out_color_space := JCS_CMYK\<rparr>) \<and>
   input_source env initial_globals (cmyk_source\<lparr>out_color_space := JCS_CMYK\<rparr>)
       (input_format cmyk_source PT_CMYK 1) None = Stock None \<and>
   input_source env initial_globals (rgb_source\<lparr>out_color_space := JCS_RGB\<rparr>)
       (input_format rgb_source PT_RGB 0) None = Stock None \<and>
   open_profile env (Stock None) = Some sRGB \<and>
   ColorSpace sRGB = cmsSigRgbData \<and>
   cmsICCcolorSpace env (T_COLORSPACE (input_format cmyk_source PT_CMYK 1)) = cmsSigCmykData \<and>
   TransformImage env initial_globals cmyk_source fresh_compressor None None =
     Inl Input_profile_not_in_proper_color_space"
proof (intro conjI)
  show "GetInputPixelType cmyk_source =
     Inr (input_format cmyk_source PT_CMYK 1, cmyk_source\<lparr>out_color_space := JCS_CMYK\<rparr>)"
    by (rule GetInputPixelType_cmyk)
  show "input_source env initial_globals (cmyk_source\<lparr>out_color_space := JCS_CMYK\<rparr>)
       (input_format cmyk_source PT_CMYK 1) None = Stock None"
    by (simp add: input_source_def named_lab_def input_format_def initial_globals_def env_def)
  show "input_source env initial_globals (rgb_source\<lparr>out_color_space := JCS_RGB\<rparr>)
       (input_format rgb_source PT_RGB 0) None = Stock None"
    by (simp add: input_source_def named_lab_def input_format_def initial_globals_def env_def)
  show "open_profile env (Stock None) = Some sRGB"
    by (simp add: open_profile_def env_def)
  show "ColorSpace sRGB = cmsSigRgbData"
    by (simp add: sRGB_def)
  show "cmsICCcolorSpace env (T_COLORSPACE (input_format cmyk_source PT_CMYK 1)) = cmsSigCmykData"
    by (simp add: env_def input_format_def)
  show "TransformImage env initial_globals cmyk_source fresh_compressor None None =
     Inl Input_profile_not_in_proper_color_space"
    using TransformImage_check [OF GetInputPixelType_cmyk env_default_input(1),
            of fresh_compressor None]
    by (simp add: env_def sRGB_def input_format_def)
qed

subsection \<open>Rounding to the nearest double\<close>

text \<open>
  What the proofs below use of \<open>rnd\<close>: it is off by at most half a quantum, it never
  crosses a multiple of the quantum (so a number that is a double stays as it is, and a
  bound that is a double stays a bound), and at a number whose binary exponent is known it
  is computed by rounding an integer.
\<close>

lemma quantum_pos: "0 < quantum x"
  by (simp add: quantum_def)

lemma round_even_error: "\<bar>of_int (round_even t) - t\<bar> \<le> 1 / 2"
  unfolding round_even_def by (auto simp: abs_if; linarith)

lemma round_even_le: "t \<le> of_int n \<Longrightarrow> round_even t \<le> n"
  unfolding round_even_def
  by (auto simp: floor_le_iff le_floor_iff; linarith)

lemma round_even_ge: "of_int n \<le> t \<Longrightarrow> n \<le> round_even t"
  unfolding round_even_def
  by (auto simp: floor_le_iff le_floor_iff; linarith)

lemma rnd_error: "\<bar>rnd x - x\<bar> \<le> quantum x / 2"
proof (cases "x = 0")
  case True
  then show ?thesis using quantum_pos [of x] by (simp add: rnd_def)
next
  case False
  have q: "0 < quantum x" by (rule quantum_pos)
  have "\<bar>of_int (round_even (x / quantum x)) - x / quantum x\<bar> \<le> 1 / 2"
    by (rule round_even_error)
  then have "\<bar>of_int (round_even (x / quantum x)) - x / quantum x\<bar> * quantum x \<le> 1 / 2 * quantum x"
    using q by (intro mult_right_mono) auto
  moreover have "\<bar>of_int (round_even (x / quantum x)) - x / quantum x\<bar> * quantum x
      = \<bar>of_int (round_even (x / quantum x)) * quantum x - x\<bar>"
    using q by (simp add: abs_mult_pos left_diff_distrib)
  ultimately show ?thesis using False by (simp add: rnd_def)
qed

lemma quantum_exp_le:
  assumes "x \<noteq> 0" "\<bar>x\<bar> < 2 ^ (53 - j)" "j \<le> 53"
  shows "quantum_exp x \<le> - int j"
proof -
  have pos: "0 < \<bar>x\<bar>" using assms(1) by simp
  have "\<bar>x\<bar> < 2 powr (of_int (int (53 - j)))"
    using assms(2) by (simp add: powr_realpow)
  then have "log 2 \<bar>x\<bar> < of_int (int (53 - j))"
    using pos by (simp add: log_less_iff)
  then have "\<lfloor>log 2 \<bar>x\<bar>\<rfloor> < int (53 - j)"
    by (simp add: floor_less_iff)
  then show ?thesis
    using assms(3) by (simp add: quantum_exp_def)
qed

lemma multiple_of_quantum:
  assumes "quantum_exp x \<le> - int j"
  shows "\<exists>n::int. of_int m / 2 ^ j = of_int n * quantum x"
proof -
  define d where "d = nat (- int j - quantum_exp x)"
  have e: "quantum_exp x = - int j - int d"
    using assms by (simp add: d_def)
  have "quantum x = 2 powr (- of_int (int j) - of_int (int d))"
    by (simp add: quantum_def e)
  also have "\<dots> = 1 / (2 ^ j * 2 ^ d)"
    by (simp add: powr_diff powr_minus powr_realpow field_simps)
  finally have q: "quantum x = 1 / (2 ^ j * 2 ^ d)" .
  have "of_int m / 2 ^ j = of_int (m * 2 ^ d) * quantum x"
    by (simp add: q)
  then show ?thesis by blast
qed

lemma rnd_le_multiple:
  assumes "x \<le> of_int n * quantum x"
  shows "rnd x \<le> of_int n * quantum x"
proof (cases "x = 0")
  case True
  with assms show ?thesis by (simp add: rnd_def)
next
  case False
  have q: "0 < quantum x" by (rule quantum_pos)
  from assms q have "x / quantum x \<le> of_int n"
    by (simp add: pos_divide_le_eq)
  then have "round_even (x / quantum x) \<le> n" by (rule round_even_le)
  then have "of_int (round_even (x / quantum x)) * quantum x \<le> of_int n * quantum x"
    using q by (intro mult_right_mono) auto
  with False show ?thesis by (simp add: rnd_def)
qed

lemma rnd_ge_multiple:
  assumes "of_int n * quantum x \<le> x"
  shows "of_int n * quantum x \<le> rnd x"
proof (cases "x = 0")
  case True
  with assms show ?thesis by (simp add: rnd_def)
next
  case False
  have q: "0 < quantum x" by (rule quantum_pos)
  from assms q have "of_int n \<le> x / quantum x"
    by (simp add: pos_le_divide_eq)
  then have "n \<le> round_even (x / quantum x)" by (rule round_even_ge)
  then have "of_int n * quantum x \<le> of_int (round_even (x / quantum x)) * quantum x"
    using q by (intro mult_right_mono) auto
  with False show ?thesis by (simp add: rnd_def)
qed

lemma rnd_le:
  assumes "x \<le> of_int m / 2 ^ j" "\<bar>x\<bar> < 2 ^ (53 - j)" "j \<le> 53"
  shows "rnd x \<le> of_int m / 2 ^ j"
proof (cases "x = 0")
  case True
  with assms show ?thesis by (simp add: rnd_def)
next
  case False
  then have "quantum_exp x \<le> - int j" using assms(2,3) by (rule quantum_exp_le)
  then obtain n :: int where n: "of_int m / 2 ^ j = of_int n * quantum x"
    using multiple_of_quantum by blast
  show ?thesis using rnd_le_multiple [of x n] assms(1) by (simp add: n)
qed

lemma rnd_ge:
  assumes "of_int m / 2 ^ j \<le> x" "\<bar>x\<bar> < 2 ^ (53 - j)" "j \<le> 53"
  shows "of_int m / 2 ^ j \<le> rnd x"
proof (cases "x = 0")
  case True
  with assms show ?thesis by (simp add: rnd_def)
next
  case False
  then have "quantum_exp x \<le> - int j" using assms(2,3) by (rule quantum_exp_le)
  then obtain n :: int where n: "of_int m / 2 ^ j = of_int n * quantum x"
    using multiple_of_quantum by blast
  show ?thesis using rnd_ge_multiple [of n x] assms(1) by (simp add: n)
qed

lemma rnd_exact:
  assumes "x = of_int m / 2 ^ j" "\<bar>x\<bar> < 2 ^ (53 - j)" "j \<le> 53"
  shows "rnd x = x"
  using rnd_le [of x m j] rnd_ge [of m j x] assms by simp

lemma tiny_quantum: "(2::real) powr (- 1074) \<le> 1 / 2 ^ 100"
proof -
  have "(2::real) powr (- 1074) \<le> 2 powr (- 100)"
    by (intro powr_mono) auto
  also have "\<dots> = 1 / 2 ^ 100"
    by (simp add: powr_neg_numeral)
  finally show ?thesis .
qed

lemma quantum_le:
  assumes "x \<noteq> 0"
  shows "quantum x \<le> \<bar>x\<bar> / 2 ^ 52 + 1 / 2 ^ 100"
proof -
  have pos: "0 < \<bar>x\<bar>" using assms by simp
  have "2 powr of_int \<lfloor>log 2 \<bar>x\<bar>\<rfloor> \<le> 2 powr log 2 \<bar>x\<bar>"
    by (intro powr_mono) auto
  then have fl: "2 powr of_int \<lfloor>log 2 \<bar>x\<bar>\<rfloor> \<le> \<bar>x\<bar>"
    using pos by simp
  show ?thesis
  proof (cases "\<lfloor>log 2 \<bar>x\<bar>\<rfloor> - 52 \<ge> - 1074")
    case True
    then have "quantum_exp x = \<lfloor>log 2 \<bar>x\<bar>\<rfloor> - 52"
      unfolding quantum_exp_def by (rule max_absorb1)
    then have "quantum x = 2 powr (of_int \<lfloor>log 2 \<bar>x\<bar>\<rfloor> - 52)"
      by (simp add: quantum_def)
    also have "\<dots> = 2 powr of_int \<lfloor>log 2 \<bar>x\<bar>\<rfloor> / 2 ^ 52"
      by (simp add: powr_diff)
    also have "\<dots> \<le> \<bar>x\<bar> / 2 ^ 52"
      using fl by (simp add: divide_right_mono)
    finally show ?thesis by simp
  next
    case False
    then have "quantum_exp x = - 1074"
      unfolding quantum_exp_def by (intro max_absorb2) simp
    then have "quantum x = 2 powr (- 1074)"
      by (simp add: quantum_def)
    also have "\<dots> \<le> 1 / 2 ^ 100" by (rule tiny_quantum)
    finally have "quantum x \<le> 1 / 2 ^ 100" .
    moreover have "0 \<le> \<bar>x\<bar> / 2 ^ 52" by simp
    ultimately show ?thesis by linarith
  qed
qed

lemma rnd_rel_error: "\<bar>rnd x - x\<bar> \<le> \<bar>x\<bar> / 2 ^ 53 + 1 / 2 ^ 101"
proof (cases "x = 0")
  case True
  then show ?thesis by (simp add: rnd_def)
next
  case False
  have "\<bar>rnd x - x\<bar> \<le> quantum x / 2" by (rule rnd_error)
  also have "\<dots> \<le> (\<bar>x\<bar> / 2 ^ 52 + 1 / 2 ^ 100) / 2"
    using quantum_le [OF False] by simp
  also have "\<dots> = \<bar>x\<bar> / 2 ^ 53 + 1 / 2 ^ 101" by simp
  finally show ?thesis .
qed

lemma rnd_eval:
  assumes "2 ^ 52 \<le> \<bar>x\<bar> * 2 ^ k" "\<bar>x\<bar> * 2 ^ k < 2 ^ 53" "k \<le> 1074"
  shows "rnd x = of_int (round_even (x * 2 ^ k)) / 2 ^ k"
proof -
  have nz: "x \<noteq> 0" using assms(1) by auto
  then have pos: "0 < \<bar>x\<bar>" by simp
  have "2 powr (52 - of_int (int k)) \<le> \<bar>x\<bar>"
    using assms(1) by (simp add: powr_diff powr_realpow [symmetric] field_simps)
  moreover have "\<bar>x\<bar> < 2 powr (52 - of_int (int k) + 1)"
    using assms(2) by (simp add: powr_diff powr_add powr_realpow [symmetric] field_simps)
  ultimately have "\<lfloor>log 2 \<bar>x\<bar>\<rfloor> = 52 - int k"
    using floor_log_eq_powr_iff [of "\<bar>x\<bar>" 2 "52 - int k"] pos by simp
  then have "quantum_exp x = - int k"
    using assms(3) by (simp add: quantum_exp_def)
  then have q: "quantum x = 1 / 2 ^ k"
    by (simp add: quantum_def powr_minus powr_realpow [symmetric] divide_inverse)
  show ?thesis using nz by (simp add: rnd_def q)
qed

lemma rnd_int:
  assumes "\<bar>m\<bar> < 2 ^ 53"
  shows "rnd (of_int m) = of_int m"
proof -
  have "\<bar>real_of_int m\<bar> < 2 ^ 53"
    using assms by (metis of_int_abs of_int_less_numeral_power_cancel_iff)
  then show ?thesis using rnd_exact [of "of_int m" m 0] by simp
qed

lemma roundoff_facts:
  "0 \<le> tiny" "tiny \<le> unit_roundoff" "0 \<le> unit_roundoff" "unit_roundoff \<le> 1 / 1000000"
  "1 / 2 ^ 34 = 524288 * unit_roundoff"
  by (simp_all add: unit_roundoff_def tiny_def)

lemma rnd_err_bound:
  assumes "\<bar>x\<bar> \<le> B"
  shows "\<bar>rnd x - x\<bar> \<le> B * unit_roundoff + tiny"
proof -
  have "\<bar>x\<bar> / 2 ^ 53 \<le> B / 2 ^ 53"
    using assms by (intro divide_right_mono) auto
  then show ?thesis using rnd_rel_error [of x] by (simp add: unit_roundoff_def tiny_def)
qed

subsection \<open>Some doubles\<close>

lemma rnd_values:
  "rnd 1 = 1" "rnd 65535 = 65535" "rnd 32768 = 32768" "rnd 24576 = 24576"
  "rnd (1 / 2) = 1 / 2" "rnd (65535 / 2) = 65535 / 2" "rnd (131071 / 2) = 131071 / 2"
  "rnd (5 / 8) = 5 / 8" "rnd (327675 / 8) = 327675 / 8" "rnd (524283 / 8) = 524283 / 8"
  "rnd 77100 = 77100" "rnd 109868 = 109868"
  using rnd_exact [of 1 1 0] rnd_exact [of 65535 65535 0] rnd_exact [of 32768 32768 0]
    rnd_exact [of 24576 24576 0] rnd_exact [of "1 / 2" 1 1] rnd_exact [of "65535 / 2" 65535 1]
    rnd_exact [of "131071 / 2" 131071 1] rnd_exact [of "5 / 8" 5 3]
    rnd_exact [of "327675 / 8" 327675 3] rnd_exact [of "524283 / 8" 524283 3]
    rnd_exact [of 77100 77100 0] rnd_exact [of 109868 109868 0]
  by simp_all

lemma rnd_0: "rnd 0 = 0"
  by (simp add: rnd_def)

lemma boundary_roundings:
  "rnd (6487217590963223 / 7205759403792793600) = 8303638516432925 / 9223372036854775808"
  "rnd (544178950174431739875 / 9223372036854775808) = 8303511812964351 / 140737488355328"
  "rnd (13107 / 20) = 5764519562104013 / 8796093022208"
  "rnd (510173395288064 / 5764519562104013) = 3188632375219211 / 36028797018963968"
  "rnd (288221580058689536 / 5764519562104013) = 7036767041945575 / 140737488355328"
     apply (subst rnd_eval [where k = 63]; simp add: round_even_def)
    apply (subst rnd_eval [where k = 47]; simp add: round_even_def)
   apply (subst rnd_eval [where k = 43]; simp add: round_even_def)
   apply (subst rnd_eval [where k = 56]; simp add: round_even_def)
  apply (subst rnd_eval [where k = 47]; simp add: round_even_def)
  done

lemma Lab2ITU_boundary:
  "Lab2ITU \<lparr>Lab_L = 6487217590963223 / 2 ^ 56, Lab_a = 0, Lab_b = 0\<rparr> = Some (58, 32768, 24576)"
  by (simp add: Lab2ITU_def Lab2ITU_floors_def dbl_div_def dbl_mul_def dbl_add_def
        dbl_floor_def to_u16_def trunc_def rnd_values rnd_0 boundary_roundings)

lemma ITU2Lab_boundary:
  "Lab_L (ITU2Lab (58, 32768, 24576)) = 3188632375219211 / 2 ^ 55"
  by (simp add: ITU2Lab_def dbl_div_def dbl_of_u16_def boundary_roundings)

lemma ITU2Lab_mid:
  "ITU2Lab (32767, 32768, 24576) = \<lparr>Lab_L = 7036767041945575 / 2 ^ 47, Lab_a = 0, Lab_b = 0\<rparr>"
  by (simp add: ITU2Lab_def dbl_div_def dbl_mul_def dbl_sub_def dbl_of_u16_def boundary_roundings rnd_0)

lemma boundary_is_double:
  "rnd (6487217590963223 / 72057594037927936) = 6487217590963223 / 72057594037927936"
  by (subst rnd_eval [where k = 56]) (simp_all add: round_even_def)

lemma rnd_20_17: "rnd (20 / 17) = 5298352502788819 / 2 ^ 52"
  by (subst rnd_eval [where k = 52]) (simp_all add: round_even_def)

lemma rnd_77100: "rnd (347227531270265253165 / 4503599627370496) = 77100"
  by (subst rnd_eval [where k = 36]) (simp_all add: round_even_def)

subsection \<open>The range of the encoder\<close>

lemma rnd_le8: "x \<le> of_int m / 8 \<Longrightarrow> \<bar>x\<bar> < 2 ^ 50 \<Longrightarrow> rnd x \<le> of_int m / 8"
  using rnd_le [of x m 3] by simp

lemma rnd_ge8: "of_int m / 8 \<le> x \<Longrightarrow> \<bar>x\<bar> < 2 ^ 50 \<Longrightarrow> of_int m / 8 \<le> rnd x"
  using rnd_ge [of m 3 x] by simp

lemma rnd_between8:
  assumes "of_int lo / 8 \<le> x" "x \<le> of_int hi / 8" "\<bar>of_int lo / 8\<bar> < (2::real) ^ 50" "\<bar>of_int hi / 8\<bar> < (2::real) ^ 50"
  shows "of_int lo / 8 \<le> rnd x \<and> rnd x \<le> of_int hi / 8"
proof -
  have "\<bar>x\<bar> < 2 ^ 50" using assms by (simp add: abs_if split: if_splits)
  then show ?thesis using assms rnd_le8 rnd_ge8 by blast
qed

lemma enc_L_range:
  assumes "0 \<le> l" "l \<le> 100"
  shows "0 \<le> dbl_mul (dbl_div l 100) 65535 \<and> dbl_mul (dbl_div l 100) 65535 \<le> 65535"
proof -
  have "of_int 0 / 8 \<le> rnd (l / 100) \<and> rnd (l / 100) \<le> of_int 8 / 8"
    using assms by (intro rnd_between8) auto
  then have t1: "0 \<le> rnd (l / 100)" "rnd (l / 100) \<le> 1" by simp_all
  have "of_int 0 / 8 \<le> rnd (rnd (l / 100) * 65535) \<and> rnd (rnd (l / 100) * 65535) \<le> of_int 524280 / 8"
    using t1 by (intro rnd_between8) auto
  then show ?thesis by (simp add: dbl_mul_def dbl_div_def)
qed

lemma enc_a_range:
  assumes "- 85 \<le> a" "a \<le> 85"
  shows "1 / 2 \<le> dbl_add (dbl_mul (dbl_div a 170) 65535) 32768 \<and>
         dbl_add (dbl_mul (dbl_div a 170) 65535) 32768 \<le> 65535 + 1 / 2"
proof -
  have "of_int (- 4) / 8 \<le> rnd (a / 170) \<and> rnd (a / 170) \<le> of_int 4 / 8"
    using assms by (intro rnd_between8) auto
  then have t1: "- (1 / 2) \<le> rnd (a / 170)" "rnd (a / 170) \<le> 1 / 2" by simp_all
  have "of_int (- 262140) / 8 \<le> rnd (rnd (a / 170) * 65535) \<and>
        rnd (rnd (a / 170) * 65535) \<le> of_int 262140 / 8"
    using t1 by (intro rnd_between8) auto
  then have t2: "- (65535 / 2) \<le> rnd (rnd (a / 170) * 65535)" "rnd (rnd (a / 170) * 65535) \<le> 65535 / 2"
    by simp_all
  have "of_int 4 / 8 \<le> rnd (rnd (rnd (a / 170) * 65535) + 32768) \<and>
        rnd (rnd (rnd (a / 170) * 65535) + 32768) \<le> of_int 524284 / 8"
    using t2 by (intro rnd_between8) auto
  then show ?thesis by (simp add: dbl_mul_def dbl_div_def dbl_add_def)
qed

lemma enc_b_range:
  assumes "- 75 \<le> b" "b \<le> 125"
  shows "3 / 8 \<le> dbl_add (dbl_mul (dbl_div b 200) 65535) 24576 \<and>
         dbl_add (dbl_mul (dbl_div b 200) 65535) 24576 \<le> 65535 + 3 / 8"
proof -
  have "of_int (- 3) / 8 \<le> rnd (b / 200) \<and> rnd (b / 200) \<le> of_int 5 / 8"
    using assms by (intro rnd_between8) auto
  then have t1: "- (3 / 8) \<le> rnd (b / 200)" "rnd (b / 200) \<le> 5 / 8" by simp_all
  have "of_int (- 196605) / 8 \<le> rnd (rnd (b / 200) * 65535) \<and>
        rnd (rnd (b / 200) * 65535) \<le> of_int 327675 / 8"
    using t1 by (intro rnd_between8) auto
  then have t2: "- (196605 / 8) \<le> rnd (rnd (b / 200) * 65535)" "rnd (rnd (b / 200) * 65535) \<le> 327675 / 8"
    by simp_all
  have "of_int 3 / 8 \<le> rnd (rnd (rnd (b / 200) * 65535) + 24576) \<and>
        rnd (rnd (rnd (b / 200) * 65535) + 24576) \<le> of_int 524283 / 8"
    using t2 by (intro rnd_between8) auto
  then show ?thesis by (simp add: dbl_mul_def dbl_div_def dbl_add_def)
qed

lemma to_u16_floor:
  assumes "0 \<le> x" "x < 65536"
  shows "to_u16 (dbl_floor x) = Some (word_of_int \<lfloor>x\<rfloor>) \<and>
         dbl_of_u16 (word_of_int \<lfloor>x\<rfloor>) = dbl_floor x \<and>
         0 \<le> dbl_floor x \<and> dbl_floor x \<le> 65535"
proof -
  have f: "0 \<le> \<lfloor>x\<rfloor>" "\<lfloor>x\<rfloor> \<le> 65535"
    using assms by (simp_all add: le_floor_iff floor_le_iff)
  have "uint (word_of_int \<lfloor>x\<rfloor> :: cmsUInt16Number) = \<lfloor>x\<rfloor>"
    using f by (simp add: uint_word_of_int take_bit_int_eq_self)
  then show ?thesis using f by (simp add: to_u16_def dbl_floor_def trunc_def dbl_of_u16_def)
qed

lemma to_u16_Some:
  assumes "to_u16 (dbl_floor x) = Some w"
  shows "uint w = \<lfloor>x\<rfloor> \<and> 0 \<le> \<lfloor>x\<rfloor> \<and> \<lfloor>x\<rfloor> \<le> 65535"
proof -
  have t: "trunc (dbl_floor x) = \<lfloor>x\<rfloor>"
    by (simp add: trunc_def dbl_floor_def)
  from assms have r: "0 \<le> \<lfloor>x\<rfloor>" "\<lfloor>x\<rfloor> \<le> 65535" and w: "w = word_of_int \<lfloor>x\<rfloor>"
    by (auto simp: to_u16_def t split: if_splits)
  have "uint (word_of_int \<lfloor>x\<rfloor> :: cmsUInt16Number) = \<lfloor>x\<rfloor>"
    using r by (simp add: uint_word_of_int take_bit_int_eq_self)
  then show ?thesis using r w by simp
qed

lemma to_u16_None:
  "to_u16 (dbl_floor x) = None \<longleftrightarrow> \<not> (0 \<le> \<lfloor>x\<rfloor> \<and> \<lfloor>x\<rfloor> \<le> 65535)"
  by (simp add: to_u16_def trunc_def dbl_floor_def)

lemma Lab2ITU_encodable:
  assumes "encodable Lab"
  shows "case Lab2ITU_floors Lab of (f0, f1, f2) \<Rightarrow>
           0 \<le> f0 \<and> f0 \<le> 65535 \<and> 0 \<le> f1 \<and> f1 \<le> 65535 \<and> 0 \<le> f2 \<and> f2 \<le> 65535 \<and>
           (\<exists>Out0 Out1 Out2. Lab2ITU Lab = Some (Out0, Out1, Out2) \<and>
              dbl_of_u16 Out0 = f0 \<and> dbl_of_u16 Out1 = f1 \<and> dbl_of_u16 Out2 = f2)"
proof -
  let ?x0 = "dbl_mul (dbl_div (Lab_L Lab) 100) 65535"
  let ?x1 = "dbl_add (dbl_mul (dbl_div (Lab_a Lab) 170) 65535) 32768"
  let ?x2 = "dbl_add (dbl_mul (dbl_div (Lab_b Lab) 200) 65535) 24576"
  have r0: "0 \<le> ?x0" "?x0 < 65536"
    using enc_L_range [of "Lab_L Lab"] assms by (simp_all add: encodable_def)
  have r1: "0 \<le> ?x1" "?x1 < 65536"
    using enc_a_range [of "Lab_a Lab"] assms by (simp_all add: encodable_def)
  have r2: "0 \<le> ?x2" "?x2 < 65536"
    using enc_b_range [of "Lab_b Lab"] assms by (simp_all add: encodable_def)
  show ?thesis
    using to_u16_floor [OF r0] to_u16_floor [OF r1] to_u16_floor [OF r2]
    by (simp add: Lab2ITU_floors_def Lab2ITU_def)
qed

lemma Lab2ITU_corner:
  "Lab2ITU_floors \<lparr>Lab_L = 100, Lab_a = 85, Lab_b = 125\<rparr> = (65535, 65535, 65535)"
  "Lab2ITU \<lparr>Lab_L = 100, Lab_a = 85, Lab_b = 125\<rparr> = Some (65535, 65535, 65535)"
  by (simp_all add: Lab2ITU_def Lab2ITU_floors_def dbl_div_def dbl_mul_def dbl_add_def
        dbl_floor_def to_u16_def trunc_def rnd_values)

lemma Lab2ITU_mid:
  "Lab2ITU \<lparr>Lab_L = 50, Lab_a = 0, Lab_b = 0\<rparr> = Some (32767, 32768, 24576)"
  by (simp add: Lab2ITU_def Lab2ITU_floors_def dbl_div_def dbl_mul_def dbl_add_def
        dbl_floor_def to_u16_def trunc_def rnd_values rnd_0)

text \<open>
  C10. For every Lab colour inside the envelope (L from 0 to 100, a from -85 to 85, b from
  -75 to 125) each of the three doubles that \<^verbatim>\<open>Lab2ITU\<close> gets from \<^verbatim>\<open>floor\<close> lies between 0
  and 65535, so the conversion to a 16-bit sample is defined and keeps the value: the
  three samples, read as numbers, are these three doubles.
\<close>

theorem Lab2ITU_no_wrap:
  assumes "encodable Lab"
  shows "case Lab2ITU_floors Lab of (f0, f1, f2) \<Rightarrow>
           0 \<le> f0 \<and> f0 \<le> 65535 \<and> 0 \<le> f1 \<and> f1 \<le> 65535 \<and> 0 \<le> f2 \<and> f2 \<le> 65535 \<and>
           (\<exists>Out0 Out1 Out2. Lab2ITU Lab = Some (Out0, Out1, Out2) \<and>
              dbl_of_u16 Out0 = f0 \<and> dbl_of_u16 Out1 = f1 \<and> dbl_of_u16 Out2 = f2)"
  using assms by (rule Lab2ITU_encodable)

theorem Lab2ITU_no_wrap_witness:
  "encodable \<lparr>Lab_L = 100, Lab_a = 85, Lab_b = 125\<rparr> \<and>
   Lab2ITU_floors \<lparr>Lab_L = 100, Lab_a = 85, Lab_b = 125\<rparr> = (65535, 65535, 65535) \<and>
   Lab2ITU \<lparr>Lab_L = 100, Lab_a = 85, Lab_b = 125\<rparr> = Some (65535, 65535, 65535) \<and>
   (\<exists>Out0 Out1 Out2.
      Lab2ITU \<lparr>Lab_L = 100, Lab_a = 85, Lab_b = 125\<rparr> = Some (Out0, Out1, Out2) \<and>
      dbl_of_u16 Out0 = 65535 \<and> dbl_of_u16 Out1 = 65535 \<and> dbl_of_u16 Out2 = 65535)"
proof -
  have e: "encodable \<lparr>Lab_L = 100, Lab_a = 85, Lab_b = 125\<rparr>"
    by (simp add: encodable_def)
  show ?thesis
    using Lab2ITU_no_wrap [OF e] e by (simp add: Lab2ITU_corner)
qed

subsection \<open>The formulas of the codec\<close>

lemma codec_agrees:
  "ITU2Lab In = FaxCodec_decode (sample_ints In)"
  "Lab2ITU Lab = Some Out \<Longrightarrow> sample_ints Out = FaxCodec_encode Lab"
  "Lab2ITU Lab \<noteq> None \<longleftrightarrow>
     (case FaxCodec_encode Lab of (L16, a16, b16) \<Rightarrow>
        0 \<le> L16 \<and> L16 \<le> 65535 \<and> 0 \<le> a16 \<and> a16 \<le> 65535 \<and> 0 \<le> b16 \<and> b16 \<le> 65535)"
proof -
  show "ITU2Lab In = FaxCodec_decode (sample_ints In)"
    by (cases In) (simp add: ITU2Lab_def FaxCodec_decode_def sample_ints_def dbl_of_u16_def)
  show "Lab2ITU Lab = Some Out \<Longrightarrow> sample_ints Out = FaxCodec_encode Lab"
    by (cases Out)
       (auto simp: Lab2ITU_def Lab2ITU_floors_def FaxCodec_encode_def sample_ints_def
          split: option.splits dest: to_u16_Some)
  show "Lab2ITU Lab \<noteq> None \<longleftrightarrow>
     (case FaxCodec_encode Lab of (L16, a16, b16) \<Rightarrow>
        0 \<le> L16 \<and> L16 \<le> 65535 \<and> 0 \<le> a16 \<and> a16 \<le> 65535 \<and> 0 \<le> b16 \<and> b16 \<le> 65535)"
    by (auto simp: Lab2ITU_def Lab2ITU_floors_def FaxCodec_encode_def to_u16_None
          split: option.splits dest: to_u16_Some)
qed

lemma Lab2ITU_outside:
  "Lab2ITU_floors \<lparr>Lab_L = 50, Lab_a = 200, Lab_b = 0\<rparr> = (32767, 109868, 24576)"
  "Lab2ITU \<lparr>Lab_L = 50, Lab_a = 200, Lab_b = 0\<rparr> = None"
  "FaxCodec_encode \<lparr>Lab_L = 50, Lab_a = 200, Lab_b = 0\<rparr> = (32767, 109868, 24576)"
  by (simp_all add: Lab2ITU_def Lab2ITU_floors_def FaxCodec_encode_def dbl_div_def dbl_mul_def
        dbl_add_def dbl_floor_def to_u16_def trunc_def rnd_values rnd_0 rnd_20_17 rnd_77100)

text \<open>
  C4, as the code has it. \<^verbatim>\<open>ITU2Lab\<close> computes the three formulas of the specification for
  decoding, in doubles and in the order the specification writes them. \<^verbatim>\<open>Lab2ITU\<close> gives a
  sample exactly for the colours whose three floors (of (L/100)*65535, of
  (a/170)*65535 + 32768 and of (b/200)*65535 + 24576, the floor being the largest integer
  that is not greater) all lie between 0 and 65535, and the sample then consists of these
  three floors; for any other colour the conversion to 16 bits is undefined.
\<close>

theorem codec_formulas:
  "ITU2Lab In = FaxCodec_decode (sample_ints In) \<and>
   (Lab2ITU Lab = Some Out \<longrightarrow> sample_ints Out = FaxCodec_encode Lab) \<and>
   (Lab2ITU Lab \<noteq> None \<longleftrightarrow>
     (case FaxCodec_encode Lab of (L16, a16, b16) \<Rightarrow>
        0 \<le> L16 \<and> L16 \<le> 65535 \<and> 0 \<le> a16 \<and> a16 \<le> 65535 \<and> 0 \<le> b16 \<and> b16 \<le> 65535))"
  using codec_agrees(1) [of In] codec_agrees(2) [of Lab Out] codec_agrees(3) [of Lab]
  by blast

theorem codec_formulas_witness:
  "Lab2ITU \<lparr>Lab_L = 100, Lab_a = 85, Lab_b = 125\<rparr> = Some (65535, 65535, 65535) \<and>
   FaxCodec_encode \<lparr>Lab_L = 100, Lab_a = 85, Lab_b = 125\<rparr> = (65535, 65535, 65535) \<and>
   ITU2Lab (32767, 32768, 24576) = FaxCodec_decode (32767, 32768, 24576) \<and>
   FaxCodec_decode (32767, 32768, 24576)
     = \<lparr>Lab_L = 7036767041945575 / 2 ^ 47, Lab_a = 0, Lab_b = 0\<rparr>"
  using codec_formulas [of "(32767, 32768, 24576)" "\<lparr>Lab_L = 100, Lab_a = 85, Lab_b = 125\<rparr>"
          "(65535, 65535, 65535)"] ITU2Lab_mid
  by (simp add: Lab2ITU_corner sample_ints_def)

text \<open>
  C4 as the specification words it, for every Lab colour, fails: at L = 50, a = 200, b = 0
  the floor for a is 109868, which is no 16-bit sample, and \<^verbatim>\<open>Lab2ITU\<close> gives none.
\<close>

theorem codec_formulas_counterexample:
  "Lab2ITU \<lparr>Lab_L = 50, Lab_a = 200, Lab_b = 0\<rparr> = None \<and>
   FaxCodec_encode \<lparr>Lab_L = 50, Lab_a = 200, Lab_b = 0\<rparr> = (32767, 109868, 24576)"
  by (simp add: Lab2ITU_outside)

subsection \<open>Encoding and decoding again\<close>

lemma roundtrip_L:
  assumes "0 \<le> l" "l \<le> 100"
  shows "\<bar>dbl_div (of_int \<lfloor>dbl_mul (dbl_div l 100) 65535\<rfloor>) (rnd (65535 / 100)) - l\<bar>
           \<le> (1 + 1 / 2 ^ 34) * (100 / 65535)"
proof -
  define t1 where "t1 = rnd (l / 100)"
  define t2 where "t2 = rnd (t1 * 65535)"
  define n where "n = \<lfloor>t2\<rfloor>"
  define c where "c = rnd (65535 / 100)"
  define y where "y = of_int n / c"
  note rf = roundoff_facts
  have "of_int 0 / 8 \<le> rnd (l / 100) \<and> rnd (l / 100) \<le> of_int 8 / 8"
    using assms by (intro rnd_between8) auto
  then have t1r: "0 \<le> t1" "t1 \<le> 1" by (simp_all add: t1_def)
  have e1: "\<bar>t1 - l / 100\<bar> \<le> 1 * unit_roundoff + tiny"
    unfolding t1_def using assms by (intro rnd_err_bound) auto
  have e2: "\<bar>t2 - t1 * 65535\<bar> \<le> 65535 * unit_roundoff + tiny"
    unfolding t2_def using t1r by (intro rnd_err_bound) auto
  have t2r: "0 \<le> t2" "t2 \<le> 65535"
    using enc_L_range [OF assms] by (simp_all add: t2_def t1_def dbl_mul_def dbl_div_def)
  have n1: "of_int n \<le> t2" "t2 < of_int n + 1"
    by (simp_all add: n_def)
  have nr: "0 \<le> n" "n \<le> 65535"
    using t2r by (simp_all add: n_def le_floor_iff floor_le_iff)
  have k1: "\<bar>of_int n - l * 65535 / 100\<bar> \<le> 1 + 131070 * unit_roundoff + 65536 * tiny"
    using e1 e2 n1 by linarith
  have ec: "\<bar>c - 65535 / 100\<bar> \<le> 656 * unit_roundoff + tiny"
    unfolding c_def by (intro rnd_err_bound) auto
  have c_lo: "655 \<le> c" using ec rf by linarith
  have c_hi: "c \<le> 656" using ec rf by linarith
  have yc: "y * c = of_int n" using c_lo by (simp add: y_def)
  have y0: "0 \<le> y" using c_lo nr by (simp add: y_def)
  have "y * 655 \<le> y * c" using y0 c_lo by (intro mult_left_mono) auto
  then have yr: "y \<le> 101" using yc nr by simp
  have "\<bar>y * (65535 / 100) - of_int n\<bar> = \<bar>y\<bar> * \<bar>65535 / 100 - c\<bar>"
    unfolding yc [symmetric] by (simp add: abs_mult [symmetric] right_diff_distrib)
  also have "\<dots> \<le> 101 * (656 * unit_roundoff + tiny)"
    using y0 yr ec by (intro mult_mono) (auto simp: abs_minus_commute)
  finally have ky: "\<bar>y * (65535 / 100) - of_int n\<bar> \<le> 101 * (656 * unit_roundoff + tiny)" .
  have e3: "\<bar>rnd y - y\<bar> \<le> 101 * unit_roundoff + tiny"
    using y0 yr by (intro rnd_err_bound) auto
  have "\<bar>rnd y - l\<bar> \<le> (1 + 524288 * unit_roundoff) * (100 / 65535)"
    using e3 ky k1 rf(1-3) by argo
  then have "\<bar>rnd y - l\<bar> \<le> (1 + 1 / 2 ^ 34) * (100 / 65535)"
    unfolding rf(5) .
  then show ?thesis
    unfolding y_def n_def t2_def t1_def c_def dbl_div_def dbl_mul_def .
qed

lemma roundtrip_a:
  assumes "- 85 \<le> a" "a \<le> 85"
  shows "\<bar>dbl_div (dbl_mul 170 (dbl_sub
            (of_int \<lfloor>dbl_add (dbl_mul (dbl_div a 170) 65535) 32768\<rfloor>) 32768)) 65535 - a\<bar>
           \<le> (1 + 1 / 2 ^ 34) * (170 / 65535)"
proof -
  define t1 where "t1 = rnd (a / 170)"
  define t2 where "t2 = rnd (t1 * 65535)"
  define t3 where "t3 = rnd (t2 + 32768)"
  define n where "n = \<lfloor>t3\<rfloor>"
  define y where "y = real_of_int (170 * (n - 32768)) / 65535"
  note rf = roundoff_facts
  have "of_int (- 4) / 8 \<le> rnd (a / 170) \<and> rnd (a / 170) \<le> of_int 4 / 8"
    using assms by (intro rnd_between8) auto
  then have t1r: "- (1 / 2) \<le> t1" "t1 \<le> 1 / 2" by (simp_all add: t1_def)
  have "of_int (- 262140) / 8 \<le> rnd (t1 * 65535) \<and> rnd (t1 * 65535) \<le> of_int 262140 / 8"
    using t1r by (intro rnd_between8) auto
  then have t2r: "- (65535 / 2) \<le> t2" "t2 \<le> 65535 / 2" by (simp_all add: t2_def)
  have "of_int 4 / 8 \<le> rnd (t2 + 32768) \<and> rnd (t2 + 32768) \<le> of_int 524284 / 8"
    using t2r by (intro rnd_between8) auto
  then have t3r: "1 / 2 \<le> t3" "t3 \<le> 65535 + 1 / 2" by (simp_all add: t3_def)
  have e1: "\<bar>t1 - a / 170\<bar> \<le> (1 / 2) * unit_roundoff + tiny"
    unfolding t1_def using assms by (intro rnd_err_bound) auto
  have e2: "\<bar>t2 - t1 * 65535\<bar> \<le> (65535 / 2) * unit_roundoff + tiny"
    unfolding t2_def using t1r by (intro rnd_err_bound) auto
  have e3: "\<bar>t3 - (t2 + 32768)\<bar> \<le> (65535 + 1 / 2) * unit_roundoff + tiny"
    unfolding t3_def using t2r by (intro rnd_err_bound) auto
  have n1: "of_int n \<le> t3" "t3 < of_int n + 1"
    by (simp_all add: n_def)
  have nr: "0 \<le> n" "n \<le> 65535"
    using t3r by (simp_all add: n_def le_floor_iff floor_le_iff)
  have k1: "\<bar>of_int n - (a * 65535 / 170 + 32768)\<bar>
      \<le> 1 + (131070 + 1 / 2) * unit_roundoff + 65537 * tiny"
    using e1 e2 e3 n1 by argo
  have d1: "rnd (of_int n - 32768) = of_int (n - 32768)"
    using rnd_int [of "n - 32768"] nr by simp
  have d2: "rnd (170 * of_int (n - 32768)) = of_int (170 * (n - 32768))"
    using rnd_int [of "170 * (n - 32768)"] nr by simp
  have yr: "\<bar>y\<bar> \<le> 86"
    using nr by (simp add: y_def abs_le_iff)
  have e4: "\<bar>rnd y - y\<bar> \<le> 86 * unit_roundoff + tiny"
    using yr by (intro rnd_err_bound)
  have ky: "y = (170 / 65535) * (of_int n - 32768)"
    by (simp add: y_def)
  have "\<bar>rnd y - a\<bar> \<le> (1 + 524288 * unit_roundoff) * (170 / 65535)"
    using e4 k1 rf(1-3) unfolding ky by argo
  then have "\<bar>rnd y - a\<bar> \<le> (1 + 1 / 2 ^ 34) * (170 / 65535)"
    unfolding rf(5) .
  moreover have "dbl_div (dbl_mul 170 (dbl_sub (of_int n) 32768)) 65535 = rnd y"
    by (simp only: dbl_div_def dbl_mul_def dbl_sub_def d1 d2 y_def)
  ultimately show ?thesis
    unfolding n_def t3_def t2_def t1_def dbl_div_def dbl_mul_def dbl_add_def by simp
qed

lemma roundtrip_b:
  assumes "- 75 \<le> b" "b \<le> 125"
  shows "\<bar>dbl_div (dbl_mul 200 (dbl_sub
            (of_int \<lfloor>dbl_add (dbl_mul (dbl_div b 200) 65535) 24576\<rfloor>) 24576)) 65535 - b\<bar>
           \<le> (1 + 1 / 2 ^ 34) * (200 / 65535)"
proof -
  define t1 where "t1 = rnd (b / 200)"
  define t2 where "t2 = rnd (t1 * 65535)"
  define t3 where "t3 = rnd (t2 + 24576)"
  define n where "n = \<lfloor>t3\<rfloor>"
  define y where "y = real_of_int (200 * (n - 24576)) / 65535"
  note rf = roundoff_facts
  have "of_int (- 3) / 8 \<le> rnd (b / 200) \<and> rnd (b / 200) \<le> of_int 5 / 8"
    using assms by (intro rnd_between8) auto
  then have t1r: "- (3 / 8) \<le> t1" "t1 \<le> 5 / 8" by (simp_all add: t1_def)
  have "of_int (- 196605) / 8 \<le> rnd (t1 * 65535) \<and> rnd (t1 * 65535) \<le> of_int 327675 / 8"
    using t1r by (intro rnd_between8) auto
  then have t2r: "- (196605 / 8) \<le> t2" "t2 \<le> 327675 / 8" by (simp_all add: t2_def)
  have "of_int 3 / 8 \<le> rnd (t2 + 24576) \<and> rnd (t2 + 24576) \<le> of_int 524283 / 8"
    using t2r by (intro rnd_between8) auto
  then have t3r: "3 / 8 \<le> t3" "t3 \<le> 524283 / 8" by (simp_all add: t3_def)
  have e1: "\<bar>t1 - b / 200\<bar> \<le> (5 / 8) * unit_roundoff + tiny"
    unfolding t1_def using assms by (intro rnd_err_bound) auto
  have e2: "\<bar>t2 - t1 * 65535\<bar> \<le> (327675 / 8) * unit_roundoff + tiny"
    unfolding t2_def using t1r by (intro rnd_err_bound) auto
  have e3: "\<bar>t3 - (t2 + 24576)\<bar> \<le> (524283 / 8) * unit_roundoff + tiny"
    unfolding t3_def using t2r by (intro rnd_err_bound) auto
  have n1: "of_int n \<le> t3" "t3 < of_int n + 1"
    by (simp_all add: n_def)
  have nr: "0 \<le> n" "n \<le> 65535"
    using t3r by (simp_all add: n_def le_floor_iff floor_le_iff)
  have k1: "\<bar>of_int n - (b * 65535 / 200 + 24576)\<bar>
      \<le> 1 + 147455 * unit_roundoff + 65537 * tiny"
    using e1 e2 e3 n1 rf(3) by argo
  have d1: "rnd (of_int n - 24576) = of_int (n - 24576)"
    using rnd_int [of "n - 24576"] nr by simp
  have d2: "rnd (200 * of_int (n - 24576)) = of_int (200 * (n - 24576))"
    using rnd_int [of "200 * (n - 24576)"] nr by simp
  have yr: "\<bar>y\<bar> \<le> 126"
    using nr by (simp add: y_def abs_le_iff)
  have e4: "\<bar>rnd y - y\<bar> \<le> 126 * unit_roundoff + tiny"
    using yr by (intro rnd_err_bound)
  have ky: "y = (200 / 65535) * (of_int n - 24576)"
    by (simp add: y_def)
  have "\<bar>rnd y - b\<bar> \<le> (1 + 524288 * unit_roundoff) * (200 / 65535)"
    using e4 k1 rf(1-3) unfolding ky by argo
  then have "\<bar>rnd y - b\<bar> \<le> (1 + 1 / 2 ^ 34) * (200 / 65535)"
    unfolding rf(5) .
  moreover have "dbl_div (dbl_mul 200 (dbl_sub (of_int n) 24576)) 65535 = rnd y"
    by (simp only: dbl_div_def dbl_mul_def dbl_sub_def d1 d2 y_def)
  ultimately show ?thesis
    unfolding n_def t3_def t2_def t1_def dbl_div_def dbl_mul_def dbl_add_def by simp
qed

lemma roundtrip_bounds:
  assumes "encodable Lab"
  shows "\<exists>Out. Lab2ITU Lab = Some Out \<and>
           \<bar>Lab_L (ITU2Lab Out) - Lab_L Lab\<bar> \<le> (1 + 1 / 2 ^ 34) * (100 / 65535) \<and>
           \<bar>Lab_a (ITU2Lab Out) - Lab_a Lab\<bar> \<le> (1 + 1 / 2 ^ 34) * (170 / 65535) \<and>
           \<bar>Lab_b (ITU2Lab Out) - Lab_b Lab\<bar> \<le> (1 + 1 / 2 ^ 34) * (200 / 65535)"
proof -
  obtain Out0 Out1 Out2 where
    out: "Lab2ITU Lab = Some (Out0, Out1, Out2)" and
    v: "dbl_of_u16 Out0 = dbl_floor (dbl_mul (dbl_div (Lab_L Lab) 100) 65535)"
       "dbl_of_u16 Out1 = dbl_floor (dbl_add (dbl_mul (dbl_div (Lab_a Lab) 170) 65535) 32768)"
       "dbl_of_u16 Out2 = dbl_floor (dbl_add (dbl_mul (dbl_div (Lab_b Lab) 200) 65535) 24576)"
    using Lab2ITU_encodable [OF assms] by (auto simp: Lab2ITU_floors_def)
  have e: "0 \<le> Lab_L Lab" "Lab_L Lab \<le> 100" "- 85 \<le> Lab_a Lab" "Lab_a Lab \<le> 85"
      "- 75 \<le> Lab_b Lab" "Lab_b Lab \<le> 125"
    using assms by (simp_all add: encodable_def)
  show ?thesis
    using roundtrip_L [OF e(1,2)] roundtrip_a [OF e(3,4)] roundtrip_b [OF e(5,6)]
    by (simp add: out ITU2Lab_def v dbl_floor_def)
qed

text \<open>
  C5, as the code has it. For every Lab colour inside the envelope, encoding with
  \<^verbatim>\<open>Lab2ITU\<close> and decoding with \<^verbatim>\<open>ITU2Lab\<close> gives a colour that differs from the original,
  in each channel, by at most 1/65535 of the full scale of the channel (100 for L, 170 for
  a, 200 for b) and the rounding of the double operations on top, which is less than
  one part in \<open>2 ^ 34\<close> of that bound.
\<close>

theorem roundtrip_error:
  assumes "encodable Lab"
  shows "\<exists>Out. Lab2ITU Lab = Some Out \<and>
           \<bar>Lab_L (ITU2Lab Out) - Lab_L Lab\<bar> \<le> (1 + 1 / 2 ^ 34) * (100 / 65535) \<and>
           \<bar>Lab_a (ITU2Lab Out) - Lab_a Lab\<bar> \<le> (1 + 1 / 2 ^ 34) * (170 / 65535) \<and>
           \<bar>Lab_b (ITU2Lab Out) - Lab_b Lab\<bar> \<le> (1 + 1 / 2 ^ 34) * (200 / 65535)"
  using assms by (rule roundtrip_bounds)

theorem roundtrip_error_witness:
  "encodable \<lparr>Lab_L = 50, Lab_a = 0, Lab_b = 0\<rparr> \<and>
   Lab2ITU \<lparr>Lab_L = 50, Lab_a = 0, Lab_b = 0\<rparr> = Some (32767, 32768, 24576) \<and>
   ITU2Lab (32767, 32768, 24576) = \<lparr>Lab_L = 7036767041945575 / 2 ^ 47, Lab_a = 0, Lab_b = 0\<rparr> \<and>
   \<bar>Lab_L (ITU2Lab (32767, 32768, 24576)) - 50\<bar> \<le> (1 + 1 / 2 ^ 34) * (100 / 65535) \<and>
   \<bar>Lab_a (ITU2Lab (32767, 32768, 24576)) - 0\<bar> \<le> (1 + 1 / 2 ^ 34) * (170 / 65535) \<and>
   \<bar>Lab_b (ITU2Lab (32767, 32768, 24576)) - 0\<bar> \<le> (1 + 1 / 2 ^ 34) * (200 / 65535)"
proof -
  have e: "encodable \<lparr>Lab_L = 50, Lab_a = 0, Lab_b = 0\<rparr>"
    by (simp add: encodable_def)
  show ?thesis
    using roundtrip_error [OF e] e ITU2Lab_mid by (simp add: Lab2ITU_mid)
qed

text \<open>
  C5 as the specification words it fails by the rounding of the doubles. The double
  6487217590963223 / 2^56 (about 0.09002822919050889) is encoded as L16 = 58 and decoded
  as 3188632375219211 / 2^55, which is farther from it than 100/65535.
\<close>

theorem roundtrip_counterexample:
  "encodable \<lparr>Lab_L = 6487217590963223 / 2 ^ 56, Lab_a = 0, Lab_b = 0\<rparr> \<and>
   rnd (6487217590963223 / 2 ^ 56) = 6487217590963223 / 2 ^ 56 \<and>
   Lab2ITU \<lparr>Lab_L = 6487217590963223 / 2 ^ 56, Lab_a = 0, Lab_b = 0\<rparr>
     = Some (58, 32768, 24576) \<and>
   100 / 65535 < \<bar>Lab_L (ITU2Lab (58, 32768, 24576)) - 6487217590963223 / 2 ^ 56\<bar>"
proof (intro conjI)
  show "encodable \<lparr>Lab_L = 6487217590963223 / 2 ^ 56, Lab_a = 0, Lab_b = 0\<rparr>"
    by (simp add: encodable_def)
  show "rnd (6487217590963223 / 2 ^ 56) = 6487217590963223 / 2 ^ 56"
    by (simp add: boundary_is_double)
  show "Lab2ITU \<lparr>Lab_L = 6487217590963223 / 2 ^ 56, Lab_a = 0, Lab_b = 0\<rparr>
     = Some (58, 32768, 24576)"
    by (rule Lab2ITU_boundary)
  show "100 / 65535 < \<bar>Lab_L (ITU2Lab (58, 32768, 24576)) - 6487217590963223 / 2 ^ 56\<bar>"
    unfolding ITU2Lab_boundary by simp
qed

end
